theory Spec2Isabelle
  imports Main "HOL-Library.Word"
begin

section \<open>Webhook signatures (WebhookService.createSignature, verifyWebhookSignature)\<close>

text \<open>
  \<^verbatim>\<open>crypto.createHmac('sha256', secret).update(payload).digest('hex')\<close>: the HMAC-SHA256
  primitive belongs to the runtime's crypto library and is taken as a parameter. All that
  is used of it is its result type, a 256-bit digest. The hex encoding of the digest
  (\<^verbatim>\<open>digest('hex')\<close>, lowercase, most significant nibble first) is written out.
  Strings are byte strings: a \<^verbatim>\<open>Buffer.from(s)\<close> is the list of bytes of \<open>s\<close>.
\<close>

type_synonym digest = "256 word"
type_synonym hmac_sha256 = "string \<Rightarrow> string \<Rightarrow> digest"

definition hex_digit :: "nat \<Rightarrow> char" where
  "hex_digit n = ''0123456789abcdef'' ! (n mod 16)"

definition digest_hex :: "digest \<Rightarrow> string" where
  "digest_hex d =
     map (\<lambda>i. hex_digit (unat (take_bit 4 (drop_bit (4 * (63 - i)) d)))) [0..<64]"

definition createSignature :: "hmac_sha256 \<Rightarrow> string \<Rightarrow> string \<Rightarrow> string" where
  "createSignature hmac payload secret = digest_hex (hmac secret payload)"

datatype crypto_error = ERR_CRYPTO_TIMING_SAFE_EQUAL_LENGTH

text \<open>\<^verbatim>\<open>crypto.timingSafeEqual(a, b)\<close> throws a RangeError when the byte lengths differ.\<close>

definition timingSafeEqual :: "string \<Rightarrow> string \<Rightarrow> crypto_error + bool" where
  "timingSafeEqual a b =
     (if length a \<noteq> length b then Inl ERR_CRYPTO_TIMING_SAFE_EQUAL_LENGTH
      else Inr (a = b))"

definition verifyWebhookSignature ::
  "hmac_sha256 \<Rightarrow> string \<Rightarrow> string \<Rightarrow> string \<Rightarrow> crypto_error + bool" where
  "verifyWebhookSignature hmac payload signature secret =
     (let expectedSignature = createSignature hmac payload secret
      in timingSafeEqual signature expectedSignature)"

section \<open>Webhook delivery (WebhookService over the DatabaseService tables)\<close>

text \<open>
  Modelled from the spec: the database schema is not among the sources. The rows of the
  \<^verbatim>\<open>webhook\<close>, \<^verbatim>\<open>webhookDelivery\<close> and \<^verbatim>\<open>session\<close> tables have the columns the
  services read and write; \<open>retries\<close> and \<open>maxRetries\<close> are counts, a delivery has its
  \<open>attempts\<close>, \<open>nextRetry\<close> and \<open>response\<close> (none counted or set in a new row), a
  session id is unique. Tables are lists,
  newest row first, so that \<^verbatim>\<open>orderBy: { createdAt: 'desc' }\<close> is the order of the list.
  Database calls are taken to succeed where the row is there; the time is a counter of
  milliseconds.
\<close>

record Webhook =
  wh_id :: string
  wh_userId :: string
  wh_url :: string
  wh_events :: "string list"
  wh_secret :: "string option"
  wh_isActive :: bool
  wh_retries :: nat
  wh_maxRetries :: nat
  wh_lastError :: "string option"

datatype DeliveryStatus = PENDING | RETRYING | SUCCESS | FAILED

datatype delivery_response = HttpResponse nat | ErrorResponse string

record WebhookDelivery =
  d_id :: nat
  d_webhookId :: string
  d_event :: string
  d_payload :: string
  d_status :: DeliveryStatus
  d_attempts :: nat
  d_nextRetry :: "nat option"
  d_response :: "delivery_response option"

datatype SessionStatus =
  CONNECTING | CONNECTED | DISCONNECTED | QR_REQUIRED | PAIRING_REQUIRED | ERROR

text \<open>
  A row of the \<^verbatim>\<open>session\<close> table. The column default of \<^verbatim>\<open>status\<close> is set by the
  database schema; a status that was never written by the service is \<open>None\<close>.
\<close>

record SessionRow =
  row_sessionId :: string
  row_userId :: string
  row_status :: "SessionStatus option"
  row_qrCode :: "string option"
  row_pairingCode :: "string option"
  row_phoneNumber :: "string option"
  row_name :: "string option"
  row_isActive :: bool

text \<open>The closure of a \<^verbatim>\<open>setTimeout\<close> scheduled by \<open>handleWebhookError\<close>.\<close>

record retry_timer =
  t_id :: nat
  t_fire_at :: nat
  t_webhookId :: string
  t_url :: string
  t_event :: string
  t_payload :: string
  t_secret :: "string option"

text \<open>One \<^verbatim>\<open>axios.post\<close>: when it was sent, for which webhook, and whether it was signed.\<close>

record http_post =
  p_at :: nat
  p_webhookId :: string
  p_url :: string
  p_event :: string
  p_payload :: string
  p_signed :: bool

record webhook_world =
  db_sessions :: "SessionRow list"
  db_webhooks :: "Webhook list"
  db_deliveries :: "WebhookDelivery list"
  next_delivery_id :: nat
  retryQueue :: "string \<rightharpoonup> nat"
  timers :: "retry_timer list"
  next_timer_id :: nat
  http_posts :: "http_post list"
  clock :: nat

text \<open>What the endpoint does with one request: a response with a status, or no response.\<close>

datatype outcome = Response nat | NetworkError string

fun show_nat :: "nat \<Rightarrow> string" where
  "show_nat n =
     (if n < 10 then [char_of (48 + n)]
      else show_nat (n div 10) @ [char_of (48 + n mod 10)])"

text \<open>
  \<^verbatim>\<open>axios.post\<close> with \<^verbatim>\<open>validateStatus: (status) => status < 500\<close>: resolves with the
  status below 500, rejects with an error message otherwise.
\<close>

definition axios_post :: "outcome \<Rightarrow> string + nat" where
  "axios_post oc =
     (case oc of
        Response status \<Rightarrow>
          if status < 500 then Inr status
          else Inl (''Request failed with status code '' @ show_nat status)
      | NetworkError message \<Rightarrow> Inl message)"

definition calculateRetryDelay :: "nat \<Rightarrow> nat" where
  "calculateRetryDelay retryCount = min (2 ^ retryCount * 1000) (5 * 60 * 1000)"

definition updateDeliveryStatus :: "nat \<Rightarrow> nat \<Rightarrow> webhook_world \<Rightarrow> webhook_world" where
  "updateDeliveryStatus deliveryId status w =
     w\<lparr>db_deliveries :=
         map (\<lambda>d. if d_id d = deliveryId
                   then d\<lparr>d_status := (if 200 \<le> status \<and> status < 300 then SUCCESS else FAILED),
                          d_response := Some (HttpResponse status),
                          d_attempts := d_attempts d + 1\<rparr>
                   else d)
             (db_deliveries w)\<rparr>"

definition handleWebhookError ::
  "string \<Rightarrow> string \<Rightarrow> string \<Rightarrow> string \<Rightarrow> string option \<Rightarrow> string \<Rightarrow>
   webhook_world \<Rightarrow> webhook_world" where
  "handleWebhookError webhookId url event payload secret message w =
     (case find (\<lambda>x. wh_id x = webhookId) (db_webhooks w) of
        None \<Rightarrow> w
      | Some webhook \<Rightarrow>
          let w1 = w\<lparr>db_webhooks :=
                       map (\<lambda>x. if wh_id x = webhookId
                                 then x\<lparr>wh_retries := wh_retries x + 1,
                                        wh_lastError :=
                                          Some (if message = [] then ''Unknown error'' else message)\<rparr>
                                 else x)
                           (db_webhooks w)\<rparr>
          in if wh_retries webhook < wh_maxRetries webhook then
               let retryDelay = calculateRetryDelay (wh_retries webhook);
                   timer = \<lparr>t_id = next_timer_id w1, t_fire_at = clock w1 + retryDelay,
                            t_webhookId = webhookId, t_url = url, t_event = event,
                            t_payload = payload, t_secret = secret\<rparr>;
                   w2 = w1\<lparr>timers := timers w1 @ [timer],
                           next_timer_id := next_timer_id w1 + 1,
                           retryQueue := (retryQueue w1)(webhookId \<mapsto> t_id timer)\<rparr>
               in (case find (\<lambda>d. d_webhookId d = webhookId \<and> d_event d = event \<and>
                                   d_status d = PENDING) (db_deliveries w2) of
                    None \<Rightarrow> w2
                  | Some delivery \<Rightarrow>
                      w2\<lparr>db_deliveries :=
                           map (\<lambda>d. if d_id d = d_id delivery
                                     then d\<lparr>d_status := RETRYING,
                                            d_nextRetry := Some (clock w2 + retryDelay),
                                            d_attempts := d_attempts d + 1\<rparr>
                                     else d)
                               (db_deliveries w2)\<rparr>)
             else
               (case find (\<lambda>d. d_webhookId d = webhookId \<and> d_event d = event \<and>
                                (d_status d = PENDING \<or> d_status d = RETRYING))
                         (db_deliveries w1) of
                 None \<Rightarrow> w1
               | Some delivery \<Rightarrow>
                   w1\<lparr>db_deliveries :=
                        map (\<lambda>d. if d_id d = d_id delivery
                                  then d\<lparr>d_status := FAILED,
                                         d_response :=
                                           Some (ErrorResponse
                                             (if message = [] then ''Max retries exceeded''
                                              else message))\<rparr>
                                  else d)
                            (db_deliveries w1)\<rparr>))"

definition deliverWebhook ::
  "outcome \<Rightarrow> string \<Rightarrow> string \<Rightarrow> string \<Rightarrow> string \<Rightarrow> string option \<Rightarrow>
   webhook_world \<Rightarrow> webhook_world" where
  "deliverWebhook oc webhookId url event payload secret w =
     (let delivery = \<lparr>d_id = next_delivery_id w, d_webhookId = webhookId, d_event = event,
                      d_payload = payload, d_status = PENDING, d_attempts = 0,
                      d_nextRetry = None, d_response = None\<rparr>;
          w1 = w\<lparr>db_deliveries := delivery # db_deliveries w,
                  next_delivery_id := next_delivery_id w + 1\<rparr>;
          w2 = w1\<lparr>http_posts := http_posts w1 @
                    [\<lparr>p_at = clock w1, p_webhookId = webhookId, p_url = url, p_event = event,
                      p_payload = payload,
                      p_signed = (case secret of None \<Rightarrow> False | Some k \<Rightarrow> k \<noteq> [])\<rparr>]\<rparr>
      in case axios_post oc of
           Inr status \<Rightarrow> updateDeliveryStatus (d_id delivery) status w2
         | Inl message \<Rightarrow> handleWebhookError webhookId url event payload secret message w2)"

definition getUserWebhooks :: "string \<Rightarrow> webhook_world \<Rightarrow> Webhook list" where
  "getUserWebhooks userId w =
     filter (\<lambda>x. wh_userId x = userId \<and> wh_isActive x) (db_webhooks w)"

text \<open>
  \<open>sendWebhook\<close>: \<open>net\<close> gives the endpoint's answer to the request made for a webhook.
  The loop runs over the webhooks as they were read before the first delivery.
\<close>

definition sendWebhook ::
  "(Webhook \<Rightarrow> outcome) \<Rightarrow> string \<Rightarrow> string \<Rightarrow> string \<Rightarrow> webhook_world \<Rightarrow> webhook_world" where
  "sendWebhook net sessionId event payload w =
     (case find (\<lambda>s. row_sessionId s = sessionId) (db_sessions w) of
        None \<Rightarrow> w
      | Some session \<Rightarrow>
          let webhooks = getUserWebhooks (row_userId session) w;
              relevantWebhooks =
                filter (\<lambda>webhook. event \<in> set (wh_events webhook) \<or>
                                   ''*'' \<in> set (wh_events webhook)) webhooks
          in fold (\<lambda>webhook. deliverWebhook (net webhook) (wh_id webhook) (wh_url webhook)
                                event payload (wh_secret webhook))
                  relevantWebhooks w)"

text \<open>
  A retry timer that fires: the callback starts \<open>deliverWebhook\<close> and removes the webhook's
  entry of \<open>retryQueue\<close> before the delivery can schedule the next retry.
\<close>

definition fire_timer :: "outcome \<Rightarrow> retry_timer \<Rightarrow> webhook_world \<Rightarrow> webhook_world" where
  "fire_timer oc t w =
     deliverWebhook oc (t_webhookId t) (t_url t) (t_event t) (t_payload t) (t_secret t)
       (w\<lparr>timers := remove1 t (timers w),
          retryQueue := (retryQueue w)(t_webhookId t := None),
          clock := max (clock w) (t_fire_at t)\<rparr>)"

definition next_due :: "retry_timer list \<Rightarrow> retry_timer option" where
  "next_due ts =
     (case ts of
        [] \<Rightarrow> None
      | t # rest \<Rightarrow> Some (fold (\<lambda>x b. if t_fire_at x < t_fire_at b then x else b) rest t))"

text \<open>
  The retries of a delivery: as long as a timer is pending, the one due first fires and
  the endpoint answers with the next outcome of the list.
\<close>

fun run_retries :: "outcome list \<Rightarrow> webhook_world \<Rightarrow> webhook_world" where
  "run_retries [] w = w"
| "run_retries (oc # ocs) w =
     (case next_due (timers w) of
        None \<Rightarrow> w
      | Some t \<Rightarrow> run_retries ocs (fire_timer oc t w))"

definition fails :: "outcome \<Rightarrow> bool" where
  "fails oc = (case oc of Response status \<Rightarrow> 500 \<le> status | NetworkError message \<Rightarrow> True)"

text \<open>The message of the error that \<open>axios.post\<close> rejects with, if it rejects.\<close>

definition failure_message :: "outcome \<Rightarrow> string" where
  "failure_message oc = (case axios_post oc of Inl m \<Rightarrow> m | Inr s \<Rightarrow> [])"


text \<open>
  What goes on around a delivery: a pending retry timer fires (at its time or later), a
  delivery is started for some webhook (by \<open>sendWebhook\<close> or \<open>retryFailedDeliveries\<close>),
  time passes. \<open>net\<close> is what the endpoint at a URL answers to a request made at a time.
\<close>

datatype action =
    Fire retry_timer
  | Deliver string string string string "string option"
  | Tick nat

fun step :: "(string \<Rightarrow> nat \<Rightarrow> outcome) \<Rightarrow> webhook_world \<Rightarrow> action \<Rightarrow> webhook_world" where
  "step net w (Fire t) =
     (if t \<in> set (timers w)
      then fire_timer (net (t_url t) (max (clock w) (t_fire_at t))) t w
      else w)"
| "step net w (Deliver webhookId url event payload secret) =
     deliverWebhook (net url (clock w)) webhookId url event payload secret w"
| "step net w (Tick n) = w\<lparr>clock := clock w + n\<rparr>"

text \<open>An action that starts no delivery for the webhook.\<close>

definition foreign :: "string \<Rightarrow> action \<Rightarrow> bool" where
  "foreign webhookId a =
     (case a of
        Deliver webhookId' url event payload secret \<Rightarrow> webhookId' \<noteq> webhookId
      | Fire t \<Rightarrow> True
      | Tick n \<Rightarrow> True)"

text \<open>The requests posted, the timers pending and the delivery rows of one webhook.\<close>

definition posts_of :: "string \<Rightarrow> webhook_world \<Rightarrow> http_post list" where
  "posts_of webhookId w = filter (\<lambda>p. p_webhookId p = webhookId) (http_posts w)"

definition timers_of :: "string \<Rightarrow> webhook_world \<Rightarrow> retry_timer list" where
  "timers_of webhookId w = filter (\<lambda>t. t_webhookId t = webhookId) (timers w)"

definition rows_of :: "string \<Rightarrow> webhook_world \<Rightarrow> WebhookDelivery list" where
  "rows_of webhookId w = filter (\<lambda>d. d_webhookId d = webhookId) (db_deliveries w)"

text \<open>The ids of the delivery rows are a primary key, below the next id to be given.\<close>

definition unique_ids :: "webhook_world \<Rightarrow> bool" where
  "unique_ids w =
     (distinct (map d_id (db_deliveries w)) \<and>
      list_all (\<lambda>d. d_id d < next_delivery_id w) (db_deliveries w))"

text \<open>
  What is promised of a delivery for a webhook whose attempts were made at the times
  \<open>ats\<close>: at least one and at most four attempts, the first at the start; each later one
  no earlier than the retry delay after the one before; one request per attempt, to the
  same URL with the same event and payload; while fewer than four attempts are made,
  exactly one retry of the webhook pending, due the retry delay after the last attempt,
  and none after the fourth; one delivery row per attempt, none of them \<open>FAILED\<close> before
  the fourth attempt and the row of the fourth attempt \<open>FAILED\<close>; the attempts counted
  in the webhook's \<open>retries\<close>.
\<close>

definition delivery_after ::
  "string \<Rightarrow> string \<Rightarrow> string \<Rightarrow> string \<Rightarrow> string option \<Rightarrow> webhook_world \<Rightarrow> nat list \<Rightarrow>
   webhook_world \<Rightarrow> bool" where
  "delivery_after wid url ev pl sec w ats w' =
     (ats \<noteq> [] \<and> length ats \<le> 4 \<and> hd ats = clock w \<and>
      list_all (\<lambda>i. ats ! i + calculateRetryDelay i \<le> ats ! Suc i) [0..<length ats - 1] \<and>
      posts_of wid w' =
        posts_of wid w @
        map (\<lambda>at. \<lparr>p_at = at, p_webhookId = wid, p_url = url, p_event = ev, p_payload = pl,
                    p_signed = (case sec of None \<Rightarrow> False | Some k \<Rightarrow> k \<noteq> [])\<rparr>) ats \<and>
      map (\<lambda>t. (t_fire_at t, t_url t, t_event t, t_payload t, t_secret t)) (timers_of wid w') =
        (if length ats < 4
         then [(last ats + calculateRetryDelay (length ats - 1), url, ev, pl, sec)]
         else []) \<and>
      length (rows_of wid w') = length ats + length (rows_of wid w) \<and>
      (FAILED \<in> set (map d_status (take (length ats) (rows_of wid w')))) = (length ats = 4) \<and>
      (length ats = 4 \<longrightarrow> d_status (hd (rows_of wid w')) = FAILED) \<and>
      map_option wh_retries (find (\<lambda>x. wh_id x = wid) (db_webhooks w')) = Some (length ats))"

text \<open>
  The invariant behind it, with the status of every row of the delivery and with the ids
  of the rows unique.
\<close>

definition chain_state ::
  "string \<Rightarrow> string \<Rightarrow> string \<Rightarrow> string \<Rightarrow> string option \<Rightarrow> webhook_world \<Rightarrow> nat list \<Rightarrow>
   webhook_world \<Rightarrow> bool" where
  "chain_state wid url ev pl sec w ats w' =
     (ats \<noteq> [] \<and> length ats \<le> 4 \<and> hd ats = clock w \<and>
      list_all (\<lambda>i. ats ! i + calculateRetryDelay i \<le> ats ! Suc i) [0..<length ats - 1] \<and>
      posts_of wid w' =
        posts_of wid w @
        map (\<lambda>at. \<lparr>p_at = at, p_webhookId = wid, p_url = url, p_event = ev, p_payload = pl,
                    p_signed = (case sec of None \<Rightarrow> False | Some k \<Rightarrow> k \<noteq> [])\<rparr>) ats \<and>
      map (\<lambda>t. (t_fire_at t, t_url t, t_event t, t_payload t, t_secret t)) (timers_of wid w') =
        (if length ats < 4
         then [(last ats + calculateRetryDelay (length ats - 1), url, ev, pl, sec)]
         else []) \<and>
      map d_status (rows_of wid w') =
        (if length ats < 4 then replicate (length ats) RETRYING
         else FAILED # replicate 3 RETRYING) @ map d_status (rows_of wid w) \<and>
      map_option (\<lambda>x. (wh_retries x, wh_maxRetries x))
        (find (\<lambda>x. wh_id x = wid) (db_webhooks w')) = Some (length ats, 3) \<and>
      unique_ids w')"

text \<open>
  A small database for concrete runs: two sessions of two users and five webhooks, of
  which \<open>h1\<close> and \<open>h2\<close> are the active webhooks of user \<open>u1\<close> that subscribe to
  \<open>message.received\<close> (one by name, one by the wildcard).
\<close>

definition example_world :: webhook_world where
  "example_world =
     \<lparr>db_sessions =
        [\<lparr>row_sessionId = ''s2'', row_userId = ''u2'', row_status = Some CONNECTED,
          row_qrCode = None, row_pairingCode = None, row_phoneNumber = None,
          row_name = None, row_isActive = True\<rparr>,
         \<lparr>row_sessionId = ''s1'', row_userId = ''u1'', row_status = Some CONNECTED,
          row_qrCode = None, row_pairingCode = None, row_phoneNumber = None,
          row_name = None, row_isActive = True\<rparr>],
      db_webhooks =
        [\<lparr>wh_id = ''h1'', wh_userId = ''u1'', wh_url = ''https://a.example/hook'',
          wh_events = [''message.received''], wh_secret = None, wh_isActive = True,
          wh_retries = 0, wh_maxRetries = 3, wh_lastError = None\<rparr>,
         \<lparr>wh_id = ''h2'', wh_userId = ''u1'', wh_url = ''https://b.example/hook'',
          wh_events = [''*''], wh_secret = Some ''k'', wh_isActive = True,
          wh_retries = 2, wh_maxRetries = 3, wh_lastError = Some ''timeout''\<rparr>,
         \<lparr>wh_id = ''h3'', wh_userId = ''u1'', wh_url = ''https://c.example/hook'',
          wh_events = [''message.updated''], wh_secret = None, wh_isActive = True,
          wh_retries = 0, wh_maxRetries = 3, wh_lastError = None\<rparr>,
         \<lparr>wh_id = ''h4'', wh_userId = ''u1'', wh_url = ''https://d.example/hook'',
          wh_events = [''*''], wh_secret = None, wh_isActive = False,
          wh_retries = 0, wh_maxRetries = 3, wh_lastError = None\<rparr>,
         \<lparr>wh_id = ''h5'', wh_userId = ''u2'', wh_url = ''https://e.example/hook'',
          wh_events = [''message.received''], wh_secret = None, wh_isActive = True,
          wh_retries = 0, wh_maxRetries = 3, wh_lastError = None\<rparr>],
      db_deliveries = [], next_delivery_id = 0, retryQueue = Map.empty, timers = [],
      next_timer_id = 0, http_posts = [], clock = 0\<rparr>"


section \<open>Session registry (WhatsAppService, POST /api/sessions)\<close>

text \<open>
  The protocol client is outside the service: what it reports is an input. A socket is
  known to the service by its \<^verbatim>\<open>user\<close> identity; a connection update carries the
  \<^verbatim>\<open>connection\<close> state, the status code of \<^verbatim>\<open>lastDisconnect.error.output\<close> and the raw
  QR payload, each of which may be absent.
\<close>

record wa_user =
  user_id :: string
  user_name :: "string option"

record WASocket =
  sock_user :: "wa_user option"

record WhatsAppSession =
  ses_id :: string
  ses_socket :: "WASocket option"
  ses_status :: SessionStatus
  ses_qrCode :: "string option"
  ses_pairingCode :: "string option"
  ses_phoneNumber :: "string option"
  ses_name :: "string option"
  ses_lastSeen :: nat

datatype connection = Conn_connecting | Conn_open | Conn_close

record ConnectionUpdate =
  cu_connection :: "connection option"
  cu_statusCode :: "nat option"
  cu_qr :: "string option"

datatype wa_error =
    Session_already_exists
  | Unique_constraint_failed
  | Record_not_found
  | Init_failed string
  | Session_undefined
  | Session_not_found_or_not_initialized
  | Pairing_rejected string

text \<open>
  The service with what it acts on: the live map \<open>sessions\<close>, the \<^verbatim>\<open>session\<close> table, the
  pending reconnect timers (when they are due and for which session), the
  \<^verbatim>\<open>sessionUpdate\<close> events emitted to the socket.io clients, the sockets ended, the time.
\<close>

record wa_world =
  sessions :: "string \<rightharpoonup> WhatsAppSession"
  session_table :: "SessionRow list"
  reconnect_timers :: "(nat \<times> string) list"
  emitted :: "WhatsAppSession list"
  ended :: "string list"
  now :: nat

text \<open>
  What the service imports: the value of \<^verbatim>\<open>DisconnectReason.loggedOut\<close> and
  \<^verbatim>\<open>QRCode.toDataURL\<close>, which gives \<open>None\<close> where it rejects.
\<close>

record wa_env =
  loggedOut :: nat
  toDataURL :: "string \<Rightarrow> string option"

text \<open>
  What loading the auth state and creating the socket come to in one call of
  \<open>initializeWhatsAppConnection\<close>: a socket, with the \<^verbatim>\<open>registered\<close> flag of its
  credentials, or an exception.
\<close>

datatype init_outcome = Socket_created WASocket bool | Init_throws string

text \<open>
  Modelled from the spec: the schema's constraints and defaults for
  \<^verbatim>\<open>prisma.session.create\<close>. The session id is unique (the service looks rows up with
  \<^verbatim>\<open>findUnique\<close> by it), so a second row with it is rejected; a new row is active and
  has the schema's default status.
\<close>

definition db_createSession :: "string \<Rightarrow> string \<Rightarrow> wa_world \<Rightarrow> wa_error + wa_world" where
  "db_createSession sessionId userId w =
     (case find (\<lambda>r. row_sessionId r = sessionId) (session_table w) of
        Some r \<Rightarrow> Inl Unique_constraint_failed
      | None \<Rightarrow>
          Inr (w\<lparr>session_table :=
                   \<lparr>row_sessionId = sessionId, row_userId = userId, row_status = None,
                    row_qrCode = None, row_pairingCode = None, row_phoneNumber = None,
                    row_name = None, row_isActive = True\<rparr> # session_table w\<rparr>))"

text \<open>\<open>updateSessionInDatabase\<close> logs and swallows the error of a missing row.\<close>

definition updateSessionInDatabase ::
  "string \<Rightarrow> (SessionRow \<Rightarrow> SessionRow) \<Rightarrow> wa_world \<Rightarrow> wa_world" where
  "updateSessionInDatabase sessionId data w =
     w\<lparr>session_table :=
         map (\<lambda>r. if row_sessionId r = sessionId then data r else r) (session_table w)\<rparr>"

definition emitSessionUpdate :: "string \<Rightarrow> wa_world \<Rightarrow> wa_world" where
  "emitSessionUpdate sessionId w =
     (case sessions w sessionId of
        None \<Rightarrow> w
      | Some session \<Rightarrow> w\<lparr>emitted := emitted w @ [session]\<rparr>)"

text \<open>The session object is mutated in place; the map entry is the object.\<close>

definition put_session :: "string \<Rightarrow> WhatsAppSession \<Rightarrow> wa_world \<Rightarrow> wa_world" where
  "put_session sessionId session w = w\<lparr>sessions := (sessions w)(sessionId \<mapsto> session)\<rparr>"

text \<open>The catch block of \<open>initializeWhatsAppConnection\<close>, which rethrows.\<close>

definition init_catch :: "wa_error \<Rightarrow> string \<Rightarrow> wa_world \<Rightarrow> wa_error option \<times> wa_world" where
  "init_catch err sessionId w =
     (case sessions w sessionId of
        None \<Rightarrow> (Some err, w)
      | Some session \<Rightarrow>
          (Some err,
           emitSessionUpdate sessionId
             (updateSessionInDatabase sessionId (\<lambda>r. r\<lparr>row_status := Some ERROR\<rparr>)
               (put_session sessionId (session\<lparr>ses_status := ERROR\<rparr>) w))))"

definition initializeWhatsAppConnection ::
  "init_outcome \<Rightarrow> string \<Rightarrow> bool \<Rightarrow> wa_world \<Rightarrow> wa_error option \<times> wa_world" where
  "initializeWhatsAppConnection io sessionId usePairingCode w =
     (case io of
        Init_throws message \<Rightarrow> init_catch (Init_failed message) sessionId w
      | Socket_created socket registered \<Rightarrow>
          (case sessions w sessionId of
             None \<Rightarrow> init_catch Session_undefined sessionId w
           | Some session \<Rightarrow>
               let session1 = session\<lparr>ses_socket := Some socket\<rparr>;
                   w1 = put_session sessionId session1 w
               in if usePairingCode \<and> \<not> registered then
                    (None,
                     emitSessionUpdate sessionId
                       (updateSessionInDatabase sessionId
                          (\<lambda>r. r\<lparr>row_status := Some PAIRING_REQUIRED\<rparr>)
                          (put_session sessionId
                             (session1\<lparr>ses_status := PAIRING_REQUIRED\<rparr>) w1)))
                  else (None, w1)))"

text \<open>
  \<open>createSession\<close> returns the session object, which the initialization has mutated;
  the error of the database or of the initialization is rethrown.
\<close>

definition createSession ::
  "init_outcome \<Rightarrow> string \<Rightarrow> string \<Rightarrow> bool \<Rightarrow> wa_world \<Rightarrow>
   (wa_error + WhatsAppSession) \<times> wa_world" where
  "createSession io sessionId userId usePairingCode w =
     (if sessions w sessionId \<noteq> None then (Inl Session_already_exists, w)
      else
        (case db_createSession sessionId userId w of
           Inl e \<Rightarrow> (Inl e, w)
         | Inr w1 \<Rightarrow>
             let session = \<lparr>ses_id = sessionId, ses_socket = None, ses_status = CONNECTING,
                             ses_qrCode = None, ses_pairingCode = None,
                             ses_phoneNumber = None, ses_name = None, ses_lastSeen = now w1\<rparr>;
                 w2 = put_session sessionId session w1
             in (case initializeWhatsAppConnection io sessionId usePairingCode w2 of
                   (Some e, w3) \<Rightarrow> (Inl e, w3)
                 | (None, w3) \<Rightarrow>
                     (case sessions w3 sessionId of
                        Some s \<Rightarrow> (Inr s, w3)
                      | None \<Rightarrow> (Inr session, w3)))))"

text \<open>The handler of \<^verbatim>\<open>POST /api/sessions\<close>, after validation.\<close>

datatype http_reply = Reply_201 WhatsAppSession | Reply_400 string | Reply_error wa_error

definition post_session ::
  "init_outcome \<Rightarrow> string \<Rightarrow> string \<Rightarrow> bool \<Rightarrow> wa_world \<Rightarrow> http_reply \<times> wa_world" where
  "post_session io sessionId userId usePairingCode w =
     (case find (\<lambda>r. row_sessionId r = sessionId) (session_table w) of
        Some existingSession \<Rightarrow> (Reply_400 ''Session already exists'', w)
      | None \<Rightarrow>
          (case createSession io sessionId userId usePairingCode w of
             (Inr session, w1) \<Rightarrow> (Reply_201 session, w1)
           | (Inl e, w1) \<Rightarrow> (Reply_error e, w1)))"

definition handleConnectionUpdate ::
  "wa_env \<Rightarrow> string \<Rightarrow> ConnectionUpdate \<Rightarrow> wa_world \<Rightarrow> wa_world" where
  "handleConnectionUpdate env sessionId update w =
     (case sessions w sessionId of
        None \<Rightarrow> w
      | Some session \<Rightarrow>
          let qrCodeDataURL =
                (case cu_qr update of
                   None \<Rightarrow> None
                 | Some qr \<Rightarrow> if qr = [] then None else toDataURL env qr);
              session1 =
                (case qrCodeDataURL of
                   None \<Rightarrow> session
                 | Some url \<Rightarrow> session\<lparr>ses_qrCode := Some url, ses_status := QR_REQUIRED\<rparr>);
              w1 =
                (case qrCodeDataURL of
                   None \<Rightarrow> w
                 | Some url \<Rightarrow>
                     emitSessionUpdate sessionId
                       (updateSessionInDatabase sessionId
                          (\<lambda>r. r\<lparr>row_status := Some QR_REQUIRED, row_qrCode := Some url\<rparr>)
                          (put_session sessionId session1 w)))
          in (case cu_connection update of
                Some Conn_close \<Rightarrow>
                  if cu_statusCode update \<noteq> Some (loggedOut env) then
                    (let w2 = emitSessionUpdate sessionId
                                (updateSessionInDatabase sessionId
                                   (\<lambda>r. r\<lparr>row_status := Some CONNECTING\<rparr>)
                                   (put_session sessionId
                                      (session1\<lparr>ses_status := CONNECTING\<rparr>) w1))
                     in w2\<lparr>reconnect_timers :=
                            reconnect_timers w2 @ [(now w2 + 5000, sessionId)]\<rparr>)
                  else
                    emitSessionUpdate sessionId
                      (updateSessionInDatabase sessionId
                         (\<lambda>r. r\<lparr>row_status := Some DISCONNECTED\<rparr>)
                         (put_session sessionId (session1\<lparr>ses_status := DISCONNECTED\<rparr>) w1))
              | Some Conn_open \<Rightarrow>
                  (let session2 = session1\<lparr>ses_status := CONNECTED, ses_lastSeen := now w1,
                                           ses_qrCode := None, ses_pairingCode := None\<rparr>;
                       session3 =
                         (case ses_socket session2 of
                            None \<Rightarrow> session2
                          | Some socket \<Rightarrow>
                              (case sock_user socket of
                                 None \<Rightarrow> session2
                               | Some user \<Rightarrow>
                                   session2\<lparr>ses_phoneNumber :=
                                              Some (takeWhile (\<lambda>c. c \<noteq> CHR '':'') (user_id user)),
                                            ses_name := user_name user\<rparr>))
                   in emitSessionUpdate sessionId
                        (updateSessionInDatabase sessionId
                           (\<lambda>r. r\<lparr>row_status := Some CONNECTED,
                                   row_phoneNumber :=
                                     (case ses_phoneNumber session3 of
                                        None \<Rightarrow> row_phoneNumber r
                                      | Some p \<Rightarrow> Some p),
                                   row_name :=
                                     (case ses_name session3 of
                                        None \<Rightarrow> row_name r
                                      | Some n \<Rightarrow> Some n),
                                   row_qrCode := None\<rparr>)
                           (put_session sessionId session3 w1)))
              | Some Conn_connecting \<Rightarrow> w1
              | None \<Rightarrow> w1))"

text \<open>
  A reconnect timer that fires calls \<open>initializeWhatsAppConnection\<close> without a pairing
  code; nothing handles what it throws.
\<close>

definition fire_reconnect :: "init_outcome \<Rightarrow> nat \<times> string \<Rightarrow> wa_world \<Rightarrow> wa_world" where
  "fire_reconnect io t w =
     snd (initializeWhatsAppConnection io (snd t) False
            (w\<lparr>reconnect_timers := remove1 t (reconnect_timers w),
               now := max (now w) (fst t)\<rparr>))"

text \<open>
  What the protocol client does with the registered \<^verbatim>\<open>connection.update\<close> handler while
  \<^verbatim>\<open>socket.end()\<close> runs: nothing, or it reports the close at once, with the status code
  of the error it was ended with, if any. The client is not among the sources, so this
  is a parameter.
\<close>

datatype end_behaviour = Silent | Emits_close "nat option"

text \<open>\<^verbatim>\<open>prisma.session.update\<close> to mark the row inactive; it rejects when there is no row.\<close>

definition db_deleteSession :: "string \<Rightarrow> wa_world \<Rightarrow> wa_error option \<times> wa_world" where
  "db_deleteSession sessionId w =
     (case find (\<lambda>r. row_sessionId r = sessionId) (session_table w) of
        None \<Rightarrow> (Some Record_not_found, w)
      | Some r \<Rightarrow>
          (None,
           w\<lparr>session_table :=
                map (\<lambda>r. if row_sessionId r = sessionId then r\<lparr>row_isActive := False\<rparr> else r)
                    (session_table w)\<rparr>))"

text \<open>
  \<open>deleteSession\<close>: ends the socket, removes the live entry, then marks the row inactive.
  Where the client reports the close during \<^verbatim>\<open>socket.end()\<close>, \<open>handleConnectionUpdate\<close>
  runs on the entry that is still live, up to its first \<^verbatim>\<open>await\<close>: it sets the status
  on the session object and issues the write of the row. The entry is removed before
  the handler goes on, so its \<open>emitSessionUpdate\<close> finds no session; for a close that is
  not a logout it then schedules the reconnect. The writes of the row are taken in the
  order in which they are issued.
\<close>

definition deleteSession ::
  "wa_env \<Rightarrow> end_behaviour \<Rightarrow> string \<Rightarrow> wa_world \<Rightarrow> wa_error option \<times> wa_world" where
  "deleteSession env eb sessionId w =
     (case sessions w sessionId of
        None \<Rightarrow> db_deleteSession sessionId w
      | Some session \<Rightarrow>
          (case ses_socket session of
             None \<Rightarrow> db_deleteSession sessionId (w\<lparr>sessions := (sessions w)(sessionId := None)\<rparr>)
           | Some socket \<Rightarrow>
               let w1 = w\<lparr>ended := ended w @ [sessionId],
                          sessions := (sessions w)(sessionId := None)\<rparr>
               in (case eb of
                     Silent \<Rightarrow> db_deleteSession sessionId w1
                   | Emits_close code \<Rightarrow>
                       if code \<noteq> Some (loggedOut env) then
                         (let w2 = emitSessionUpdate sessionId
                                     (updateSessionInDatabase sessionId
                                        (\<lambda>r. r\<lparr>row_status := Some CONNECTING\<rparr>) w1)
                          in db_deleteSession sessionId
                               (w2\<lparr>reconnect_timers :=
                                     reconnect_timers w2 @ [(now w2 + 5000, sessionId)]\<rparr>))
                       else
                         db_deleteSession sessionId
                           (emitSessionUpdate sessionId
                              (updateSessionInDatabase sessionId
                                 (\<lambda>r. r\<lparr>row_status := Some DISCONNECTED\<rparr>) w1)))))"

text \<open>
  \<open>requestPairingCode\<close>: \<open>answer\<close> is what the socket's \<^verbatim>\<open>requestPairingCode\<close> comes to,
  a code or an exception.
\<close>

definition requestPairingCode ::
  "wa_error + string \<Rightarrow> string \<Rightarrow> string \<Rightarrow> wa_world \<Rightarrow> (wa_error + string) \<times> wa_world" where
  "requestPairingCode answer sessionId phoneNumber w =
     (case sessions w sessionId of
        None \<Rightarrow> (Inl Session_not_found_or_not_initialized, w)
      | Some session \<Rightarrow>
          (case ses_socket session of
             None \<Rightarrow> (Inl Session_not_found_or_not_initialized, w)
           | Some socket \<Rightarrow>
               (case answer of
                  Inl e \<Rightarrow> (Inl e, w)
                | Inr code \<Rightarrow>
                    (Inr code,
                     emitSessionUpdate sessionId
                       (updateSessionInDatabase sessionId
                          (\<lambda>r. r\<lparr>row_pairingCode := Some code, row_phoneNumber := Some phoneNumber\<rparr>)
                          (put_session sessionId
                             (session\<lparr>ses_pairingCode := Some code,
                                      ses_phoneNumber := Some phoneNumber\<rparr>) w))))))"

text \<open>
  What can happen to a session once it is created: the client reports a connection
  update or its identity, a reconnect timer fires, a pairing code is requested.
\<close>

datatype session_event =
    Update ConnectionUpdate
  | Identified wa_user
  | Reconnect init_outcome
  | Pairing "wa_error + string" string

definition identify :: "string \<Rightarrow> wa_user \<Rightarrow> wa_world \<Rightarrow> wa_world" where
  "identify sessionId user w =
     (case sessions w sessionId of
        None \<Rightarrow> w
      | Some session \<Rightarrow>
          (case ses_socket session of
             None \<Rightarrow> w
           | Some socket \<Rightarrow>
               put_session sessionId
                 (session\<lparr>ses_socket := Some (socket\<lparr>sock_user := Some user\<rparr>)\<rparr>) w))"

definition next_reconnect :: "string \<Rightarrow> (nat \<times> string) list \<Rightarrow> (nat \<times> string) option" where
  "next_reconnect sessionId ts = find (\<lambda>t. snd t = sessionId) ts"

fun session_step :: "wa_env \<Rightarrow> string \<Rightarrow> wa_world \<Rightarrow> session_event \<Rightarrow> wa_world" where
  "session_step env sessionId w (Update update) = handleConnectionUpdate env sessionId update w"
| "session_step env sessionId w (Identified user) = identify sessionId user w"
| "session_step env sessionId w (Reconnect io) =
     (case next_reconnect sessionId (reconnect_timers w) of
        None \<Rightarrow> w
      | Some t \<Rightarrow> fire_reconnect io t w)"
| "session_step env sessionId w (Pairing answer phoneNumber) =
     snd (requestPairingCode answer sessionId phoneNumber w)"

definition empty_world :: wa_world where
  "empty_world = \<lparr>sessions = Map.empty, session_table = [], reconnect_timers = [],
                   emitted = [], ended = [], now = 0\<rparr>"

definition example_env :: wa_env where
  "example_env = \<lparr>loggedOut = 401, toDataURL = (\<lambda>qr. Some (''data:image/png;base64,'' @ qr))\<rparr>"

definition example_socket :: WASocket where
  "example_socket =
     \<lparr>sock_user = Some \<lparr>user_id = ''15551234567:7@s.whatsapp.net'', user_name = Some ''Ann''\<rparr>\<rparr>"

text \<open>
  A run for concrete statements: session \<open>s1\<close> of user \<open>u1\<close> is created in the empty
  world; the client then reports the QR payload \<open>1@xyz\<close>, an open connection, or a close
  with status 515 (restart required, not a logout).
\<close>

definition qr_update :: ConnectionUpdate where
  "qr_update = \<lparr>cu_connection = None, cu_statusCode = None, cu_qr = Some ''1@xyz''\<rparr>"

definition open_update :: ConnectionUpdate where
  "open_update = \<lparr>cu_connection = Some Conn_open, cu_statusCode = None, cu_qr = None\<rparr>"

definition close_update :: ConnectionUpdate where
  "close_update = \<lparr>cu_connection = Some Conn_close, cu_statusCode = Some 515, cu_qr = None\<rparr>"

definition example_live :: wa_world where
  "example_live =
     snd (createSession (Socket_created example_socket False) ''s1'' ''u1'' False empty_world)"

text \<open>The live session, if there is one, has no QR code while it is \<open>CONNECTED\<close>.\<close>

definition connected_without_qr :: "string \<Rightarrow> wa_world \<Rightarrow> bool" where
  "connected_without_qr sessionId w =
     (case sessions w sessionId of
        None \<Rightarrow> True
      | Some session \<Rightarrow> ses_status session = CONNECTED \<longrightarrow> ses_qrCode session = None)"

lemma length_createSignature: "length (createSignature hmac payload secret) = 64"
  by (simp add: createSignature_def digest_hex_def)

lemma card_payloads: "card {p :: string. length p = 33} = 256 ^ 33"
  using card_lists_length_eq [of "UNIV :: char set" 33] by (simp add: card_UNIV_char)

lemma signature_collision:
  "\<exists>p p'. length p = 33 \<and> length p' = 33 \<and> p \<noteq> p' \<and>
     createSignature hmac p secret = createSignature hmac p' secret"
proof -
  let ?A = "{p :: string. length p = 33}"
  let ?f = "\<lambda>p. hmac secret p"
  have "card (?f ` ?A) \<le> card (UNIV :: digest set)"
    by (rule card_mono) simp_all
  also have "\<dots> = 2 ^ 256"
    by (simp add: card_word)
  also have "\<dots> < card ?A"
    by (simp add: card_payloads)
  finally have "\<not> inj_on ?f ?A"
    by (rule pigeonhole)
  then obtain p p' where "p \<in> ?A" "p' \<in> ?A" "p \<noteq> p'" "?f p = ?f p'"
    by (auto simp: inj_on_def)
  then have "length p = 33 \<and> length p' = 33 \<and> p \<noteq> p' \<and>
     createSignature hmac p secret = createSignature hmac p' secret"
    by (simp add: createSignature_def)
  then show ?thesis
    by blast
qed

text \<open>
  C10: \<open>verifyWebhookSignature\<close> returns a boolean exactly when the supplied signature has
  the byte length of the expected digest, which is always 64 hex characters; for every
  signature of another length it throws (\<open>crypto.timingSafeEqual\<close> rejects buffers of
  unequal length) instead of returning false.
\<close>

theorem verifyWebhookSignature_length:
  "length (createSignature hmac payload secret) = 64 \<and>
   verifyWebhookSignature hmac payload signature secret =
     (if length signature = 64
      then Inr (signature = createSignature hmac payload secret)
      else Inl ERR_CRYPTO_TIMING_SAFE_EQUAL_LENGTH)"
  by (simp add: verifyWebhookSignature_def timingSafeEqual_def length_createSignature)


lemma map_flip_neq: "xs \<noteq> [] \<Longrightarrow> (\<And>x. f x \<noteq> x) \<Longrightarrow> map f xs \<noteq> xs"
  by (cases xs) auto

text \<open>
  C2, the part that fails: whatever the HMAC function and the secret are, two different
  payloads of the same length exist of which one verifies against the signature of the
  other (there are more payloads of 33 bytes than digests of 256 bits).
\<close>

theorem signature_round_trip_counterexample:
  "\<forall>hmac secret. \<exists>payload payload'.
     length payload' = length payload \<and> payload' \<noteq> payload \<and>
     verifyWebhookSignature hmac payload' (createSignature hmac payload secret) secret = Inr True"
proof (intro allI)
  fix hmac :: hmac_sha256 and secret :: string
  obtain p p' where "length p = 33" "length p' = 33" "p \<noteq> p'"
    "createSignature hmac p secret = createSignature hmac p' secret"
    using signature_collision [of hmac secret] by blast
  then have "length p' = length p \<and> p' \<noteq> p \<and>
     verifyWebhookSignature hmac p' (createSignature hmac p secret) secret = Inr True"
    by (simp add: verifyWebhookSignature_def timingSafeEqual_def)
  then show "\<exists>payload payload'.
     length payload' = length payload \<and> payload' \<noteq> payload \<and>
     verifyWebhookSignature hmac payload' (createSignature hmac payload secret) secret = Inr True"
    by blast
qed

lemma hex_digit_inj: "m < 16 \<Longrightarrow> n < 16 \<Longrightarrow> hex_digit m = hex_digit n \<Longrightarrow> m = n"
proof -
  assume m: "m < 16" and n: "n < 16" and e: "hex_digit m = hex_digit n"
  have d: "distinct ''0123456789abcdef''" by simp
  have l: "length ''0123456789abcdef'' = 16" by simp
  from e m n have "''0123456789abcdef'' ! m = ''0123456789abcdef'' ! n"
    by (simp add: hex_digit_def)
  with d show "m = n"
    using m n l nth_eq_iff_index_eq [OF d, of m n] by simp
qed

lemma nibble_less: "unat (take_bit 4 (x :: digest)) < 16"
proof -
  have "unat (take_bit 4 x) = take_bit 4 (unat x)"
    by (simp add: unsigned_take_bit_eq)
  also have "\<dots> < 2 ^ 4"
    by (rule take_bit_nat_less_exp)
  finally show ?thesis by simp
qed

lemma digest_hex_inj:
  assumes "digest_hex a = digest_hex b"
  shows "a = b"
proof (rule bit_word_eqI)
  fix n assume n: "n < LENGTH(256)"
  let ?q = "n div 4" and ?r = "n mod 4"
  let ?i = "63 - ?q"
  have q: "?q < 64" using n by simp
  have i: "?i < 64" by simp
  have "map (\<lambda>i. hex_digit (unat (take_bit 4 (drop_bit (4 * (63 - i)) a)))) [0..<64] ! ?i =
        map (\<lambda>i. hex_digit (unat (take_bit 4 (drop_bit (4 * (63 - i)) b)))) [0..<64] ! ?i"
    using assms by (simp add: digest_hex_def)
  then have "hex_digit (unat (take_bit 4 (drop_bit (4 * (63 - ?i)) a))) =
             hex_digit (unat (take_bit 4 (drop_bit (4 * (63 - ?i)) b)))"
    using i by (simp only: nth_map length_upt nth_upt) simp
  moreover have "63 - ?i = ?q" using q by simp
  ultimately have "hex_digit (unat (take_bit 4 (drop_bit (4 * ?q) a))) =
             hex_digit (unat (take_bit 4 (drop_bit (4 * ?q) b)))"
    by simp
  then have "unat (take_bit 4 (drop_bit (4 * ?q) a)) = unat (take_bit 4 (drop_bit (4 * ?q) b))"
    by (rule hex_digit_inj [OF nibble_less nibble_less])
  then have "take_bit 4 (drop_bit (4 * ?q) a) = take_bit 4 (drop_bit (4 * ?q) b)"
    by (rule word_unat_eq_iff [THEN iffD2])
  then have "bit (take_bit 4 (drop_bit (4 * ?q) a)) ?r = bit (take_bit 4 (drop_bit (4 * ?q) b)) ?r"
    by simp
  then have "bit a (4 * ?q + ?r) = bit b (4 * ?q + ?r)"
    by (simp add: bit_take_bit_iff bit_drop_bit_eq)
  then show "bit a n = bit b n"
    by simp
qed

lemma digest_hex_eq_iff: "digest_hex a = digest_hex b \<longleftrightarrow> a = b"
  using digest_hex_inj by blast

text \<open>
  C2, as the code has it: verifying the signature made for a payload returns true; every
  other signature of the same length is rejected with false; and a payload other than
  the signed one verifies exactly when its HMAC digest equals that of the signed
  payload.
\<close>

theorem signature_round_trip:
  "verifyWebhookSignature hmac payload (createSignature hmac payload secret) secret = Inr True \<and>
   (length signature = length (createSignature hmac payload secret) \<and>
    signature \<noteq> createSignature hmac payload secret \<longrightarrow>
      verifyWebhookSignature hmac payload signature secret = Inr False) \<and>
   verifyWebhookSignature hmac payload' (createSignature hmac payload secret) secret =
     Inr (hmac secret payload = hmac secret payload')"
  by (simp add: verifyWebhookSignature_def timingSafeEqual_def length_createSignature)
     (simp add: createSignature_def digest_hex_eq_iff)

theorem signature_round_trip_witness:
  "(let hmac = (\<lambda>k m. of_nat (length k + length m)) :: hmac_sha256;
        good = createSignature hmac ''{}'' ''key'';
        bad = map (\<lambda>c. if c = CHR ''0'' then CHR ''1'' else CHR ''0'') good
    in length bad = length good \<and> bad \<noteq> good \<and>
       verifyWebhookSignature hmac ''{}'' good ''key'' = Inr True \<and>
       verifyWebhookSignature hmac ''{}'' bad ''key'' = Inr False)"
proof -
  let ?hmac = "(\<lambda>k m. of_nat (length k + length m)) :: hmac_sha256"
  let ?good = "createSignature ?hmac ''{}'' ''key''"
  let ?bad = "map (\<lambda>c. if c = CHR ''0'' then CHR ''1'' else CHR ''0'') ?good"
  have len: "length ?bad = length ?good" by simp
  have "?good \<noteq> []" using length_createSignature [of ?hmac "''{}''" "''key''"] by auto
  then have neq: "?bad \<noteq> ?good" by (rule map_flip_neq) simp
  from signature_round_trip [of ?hmac "''{}''" "''key''" ?bad] len neq
  show ?thesis unfolding Let_def by blast
qed

section \<open>Properties of webhook delivery\<close>

lemma find_map_keep:
  "(\<And>x. wh_id (f x) = wh_id x) \<Longrightarrow>
   find (\<lambda>x. wh_id x = i) (map (\<lambda>x. if wh_id x = i then f x else x) ws) =
   map_option f (find (\<lambda>x. wh_id x = i) ws)"
  by (induction ws) auto

lemma fails_axios: "fails oc \<Longrightarrow> axios_post oc = Inl (failure_message oc)"
  by (auto simp: fails_def axios_post_def failure_message_def split: outcome.splits)

lemma deliverWebhook_posts:
  "http_posts (deliverWebhook oc wid url ev pl sec w) =
     http_posts w @ [\<lparr>p_at = clock w, p_webhookId = wid, p_url = url, p_event = ev,
                      p_payload = pl,
                      p_signed = (case sec of None \<Rightarrow> False | Some k \<Rightarrow> k \<noteq> [])\<rparr>]"
  by (simp add: deliverWebhook_def updateDeliveryStatus_def handleWebhookError_def Let_def
      split: sum.splits option.splits)

lemma deliverWebhook_clock: "clock (deliverWebhook oc wid url ev pl sec w) = clock w"
  by (simp add: deliverWebhook_def updateDeliveryStatus_def handleWebhookError_def Let_def
      split: sum.splits option.splits)

lemma row_key_update:
  "(\<And>d. d_webhookId (f d) = d_webhookId d \<and> d_event (f d) = d_event d \<and> d_payload (f d) = d_payload d) \<Longrightarrow>
   map (\<lambda>d. (d_webhookId d, d_event d, d_payload d)) (map (\<lambda>d. if P d then f d else d) ds) =
   map (\<lambda>d. (d_webhookId d, d_event d, d_payload d)) ds"
  by (induction ds) auto

lemma deliverWebhook_rows:
  "map (\<lambda>d. (d_webhookId d, d_event d, d_payload d))
     (db_deliveries (deliverWebhook oc wid url ev pl sec w)) =
   (wid, ev, pl) # map (\<lambda>d. (d_webhookId d, d_event d, d_payload d)) (db_deliveries w)"
  by (simp add: deliverWebhook_def updateDeliveryStatus_def handleWebhookError_def Let_def
      row_key_update split: sum.splits option.splits)

lemma fold_deliver_posts_full:
  "http_posts (fold (\<lambda>x. deliverWebhook (net x) (wh_id x) (wh_url x) ev pl (wh_secret x)) xs w) =
     http_posts w @
     map (\<lambda>x. \<lparr>p_at = clock w, p_webhookId = wh_id x, p_url = wh_url x, p_event = ev,
                p_payload = pl,
                p_signed = (case wh_secret x of None \<Rightarrow> False | Some k \<Rightarrow> k \<noteq> [])\<rparr>) xs"
  by (induction xs arbitrary: w) (simp_all add: deliverWebhook_posts deliverWebhook_clock)

lemma fold_deliver_rows:
  "map (\<lambda>d. (d_webhookId d, d_event d, d_payload d))
     (db_deliveries (fold (\<lambda>x. deliverWebhook (net x) (wh_id x) (wh_url x) ev pl (wh_secret x)) xs w)) =
     rev (map (\<lambda>x. (wh_id x, ev, pl)) xs) @
     map (\<lambda>d. (d_webhookId d, d_event d, d_payload d)) (db_deliveries w)"
  by (induction xs arbitrary: w) (simp_all add: deliverWebhook_rows)

text \<open>
  C5: \<open>sendWebhook\<close> posts exactly one request for each active webhook of the user who
  owns the session whose events contain the event type or \<open>*\<close>, in the order of the
  table: to the URL of that webhook, with the event and the payload given, signed where
  the webhook has a secret; and it writes exactly one delivery row for each, with that
  webhook, event and payload. Nothing else is posted and no other row is written: a
  webhook of another owner, a deactivated one and one whose events match neither gets
  no request and no row. When the session is unknown nothing is sent.
\<close>

theorem sendWebhook_recipients:
  "(let recipients =
          (case find (\<lambda>s. row_sessionId s = sessionId) (db_sessions w) of
             None \<Rightarrow> []
           | Some session \<Rightarrow>
               filter (\<lambda>x. wh_userId x = row_userId session \<and> wh_isActive x \<and>
                           (event \<in> set (wh_events x) \<or> ''*'' \<in> set (wh_events x)))
                      (db_webhooks w));
        w' = sendWebhook net sessionId event payload w
    in http_posts w' =
         http_posts w @
         map (\<lambda>x. \<lparr>p_at = clock w, p_webhookId = wh_id x, p_url = wh_url x, p_event = event,
                    p_payload = payload,
                    p_signed = (case wh_secret x of None \<Rightarrow> False | Some k \<Rightarrow> k \<noteq> [])\<rparr>)
             recipients \<and>
       map (\<lambda>d. (d_webhookId d, d_event d, d_payload d)) (db_deliveries w') =
         rev (map (\<lambda>x. (wh_id x, event, payload)) recipients) @
         map (\<lambda>d. (d_webhookId d, d_event d, d_payload d)) (db_deliveries w))"
  by (simp add: sendWebhook_def getUserWebhooks_def Let_def fold_deliver_posts_full
      fold_deliver_rows conj_commute conj_left_commute split: option.splits)

theorem sendWebhook_recipients_witness:
  "map (\<lambda>p. (p_url p, p_event p, p_payload p, p_signed p))
     (http_posts (sendWebhook (\<lambda>x. Response 200) ''s1'' ''message.received'' ''{}''
        example_world)) =
     [(''https://a.example/hook'', ''message.received'', ''{}'', False),
      (''https://b.example/hook'', ''message.received'', ''{}'', True)] \<and>
   map (\<lambda>d. (d_webhookId d, d_event d, d_payload d))
     (db_deliveries (sendWebhook (\<lambda>x. Response 200) ''s1'' ''message.received'' ''{}''
        example_world)) =
     [(''h2'', ''message.received'', ''{}''), (''h1'', ''message.received'', ''{}'')]"
  using sendWebhook_recipients [where sessionId = "''s1''" and w = example_world
      and event = "''message.received''" and net = "\<lambda>x. Response 200" and payload = "''{}''"]
  by (simp add: example_world_def Let_def)

text \<open>
  C4: a 2xx response marks the delivery row \<open>SUCCESS\<close>, but nothing resets the webhook's
  \<open>retries\<close> counter: in the example, webhook \<open>h2\<close> has two failures counted before the
  successful delivery and two after it.
\<close>

theorem success_counter_counterexample:
  "d_status (hd (db_deliveries (deliverWebhook (Response 200) ''h2'' ''https://b.example/hook''
       ''message.received'' ''{}'' (Some ''k'') example_world))) = SUCCESS \<and>
   map wh_retries (db_webhooks (deliverWebhook (Response 200) ''h2'' ''https://b.example/hook''
       ''message.received'' ''{}'' (Some ''k'') example_world)) = [0, 2, 0, 0, 0]"
  by (simp add: deliverWebhook_def updateDeliveryStatus_def axios_post_def example_world_def)

text \<open>
  C4, as the code has it: after a delivery attempt that receives a 2xx response the
  delivery row created for the attempt is \<open>SUCCESS\<close>, with the response stored and its
  attempts incremented, and the \<open>webhook\<close> table, the \<open>retries\<close> counters with it, is
  unchanged; no retry is scheduled.
\<close>

theorem success_marks_delivery:
  assumes "200 \<le> status" and "status < 300"
  shows "db_deliveries (deliverWebhook (Response status) wid url ev pl sec w) =
           map (\<lambda>d. if d_id d = next_delivery_id w
                     then d\<lparr>d_status := SUCCESS, d_response := Some (HttpResponse status),
                            d_attempts := d_attempts d + 1\<rparr>
                     else d)
             (\<lparr>d_id = next_delivery_id w, d_webhookId = wid, d_event = ev,
               d_payload = pl, d_status = PENDING, d_attempts = 0,
               d_nextRetry = None, d_response = None\<rparr> # db_deliveries w) \<and>
         d_status (hd (db_deliveries (deliverWebhook (Response status) wid url ev pl sec w))) = SUCCESS \<and>
         db_webhooks (deliverWebhook (Response status) wid url ev pl sec w) = db_webhooks w \<and>
         timers (deliverWebhook (Response status) wid url ev pl sec w) = timers w"
  using assms
  by (simp add: deliverWebhook_def updateDeliveryStatus_def axios_post_def)

theorem success_marks_delivery_witness:
  "d_status (hd (db_deliveries (deliverWebhook (Response 204) ''h2'' ''https://b.example/hook''
       ''message.received'' ''{}'' (Some ''k'') example_world))) = SUCCESS \<and>
   db_webhooks (deliverWebhook (Response 204) ''h2'' ''https://b.example/hook''
       ''message.received'' ''{}'' (Some ''k'') example_world) = db_webhooks example_world"
  using success_marks_delivery [of 204 "''h2''" "''https://b.example/hook''"
      "''message.received''" "''{}''" "Some ''k''" example_world]
  by simp



subsection \<open>The retries of one delivery\<close>

lemma find_map_other:
  "(\<And>x. wh_id (f x) = wh_id x) \<Longrightarrow> i \<noteq> j \<Longrightarrow>
   find (\<lambda>x. wh_id x = i) (map (\<lambda>x. if wh_id x = j then f x else x) ws) =
   find (\<lambda>x. wh_id x = i) ws"
  by (induction ws) auto

lemma deliverWebhook_timers:
  "timers (deliverWebhook oc wid url ev pl sec w) =
     timers w @
     (case axios_post oc of
        Inr status \<Rightarrow> []
      | Inl message \<Rightarrow>
          (case find (\<lambda>x. wh_id x = wid) (db_webhooks w) of
             None \<Rightarrow> []
           | Some wh \<Rightarrow>
               if wh_retries wh < wh_maxRetries wh
               then [\<lparr>t_id = next_timer_id w,
                      t_fire_at = clock w + calculateRetryDelay (wh_retries wh),
                      t_webhookId = wid, t_url = url, t_event = ev, t_payload = pl,
                      t_secret = sec\<rparr>]
               else []))"
  by (simp add: deliverWebhook_def updateDeliveryStatus_def handleWebhookError_def Let_def
      split: sum.splits option.splits)

lemma deliverWebhook_other_webhook:
  "wid' \<noteq> wid \<Longrightarrow>
   find (\<lambda>x. wh_id x = wid) (db_webhooks (deliverWebhook oc wid' url ev pl sec w)) =
   find (\<lambda>x. wh_id x = wid) (db_webhooks w)"
  by (simp add: deliverWebhook_def updateDeliveryStatus_def handleWebhookError_def Let_def
      find_map_other split: sum.splits option.splits)

lemma deliverWebhook_fail_webhook:
  "fails oc \<Longrightarrow> find (\<lambda>x. wh_id x = wid) (db_webhooks w) = Some wh \<Longrightarrow>
   find (\<lambda>x. wh_id x = wid) (db_webhooks (deliverWebhook oc wid url ev pl sec w)) =
   Some (wh\<lparr>wh_retries := wh_retries wh + 1,
            wh_lastError := Some (if failure_message oc = [] then ''Unknown error''
                                  else failure_message oc)\<rparr>)"
  by (simp add: deliverWebhook_def handleWebhookError_def Let_def fails_axios find_map_keep
      split: option.splits)

text \<open>Under unique ids an attempt adds one row and changes no other.\<close>

lemma map_update_fresh:
  "list_all (\<lambda>d. d_id d < n) ds \<Longrightarrow> map (\<lambda>d. if d_id d = n then f d else d) ds = ds"
  by (induction ds) auto

lemma deliverWebhook_rows_unique:
  assumes "unique_ids w"
  shows "\<exists>r. db_deliveries (deliverWebhook oc wid url ev pl sec w) = r # db_deliveries w \<and>
             d_id r = next_delivery_id w \<and> d_webhookId r = wid \<and>
             d_status r =
               (case axios_post oc of
                  Inr status \<Rightarrow> if 200 \<le> status \<and> status < 300 then SUCCESS else FAILED
                | Inl message \<Rightarrow>
                    (case find (\<lambda>x. wh_id x = wid) (db_webhooks w) of
                       None \<Rightarrow> PENDING
                     | Some wh \<Rightarrow> if wh_retries wh < wh_maxRetries wh then RETRYING else FAILED))"
  using assms
  by (auto simp: deliverWebhook_def updateDeliveryStatus_def handleWebhookError_def Let_def
      unique_ids_def map_update_fresh split: sum.splits option.splits)

lemma deliverWebhook_next_id:
  "next_delivery_id (deliverWebhook oc wid url ev pl sec w) = Suc (next_delivery_id w)"
  by (simp add: deliverWebhook_def updateDeliveryStatus_def handleWebhookError_def Let_def
      split: sum.splits option.splits)

lemma deliverWebhook_unique:
  assumes "unique_ids w"
  shows "unique_ids (deliverWebhook oc wid url ev pl sec w)"
proof -
  obtain r where r: "db_deliveries (deliverWebhook oc wid url ev pl sec w) = r # db_deliveries w"
    "d_id r = next_delivery_id w"
    using deliverWebhook_rows_unique [OF assms] by blast
  have "d_id r \<notin> set (map d_id (db_deliveries w))"
    using assms r(2) by (auto simp: unique_ids_def list_all_iff)
  moreover have "list_all (\<lambda>d. d_id d < Suc (next_delivery_id w)) (db_deliveries w)"
    using assms by (auto simp: unique_ids_def list_all_iff)
  ultimately show ?thesis
    using assms r by (simp add: unique_ids_def deliverWebhook_next_id)
qed


lemma attempt_other:
  assumes "wid' \<noteq> wid" and "unique_ids w"
  shows "posts_of wid (deliverWebhook oc wid' url ev pl sec w) = posts_of wid w"
    and "timers_of wid (deliverWebhook oc wid' url ev pl sec w) = timers_of wid w"
    and "rows_of wid (deliverWebhook oc wid' url ev pl sec w) = rows_of wid w"
    and "find (\<lambda>x. wh_id x = wid) (db_webhooks (deliverWebhook oc wid' url ev pl sec w)) =
         find (\<lambda>x. wh_id x = wid) (db_webhooks w)"
    and "unique_ids (deliverWebhook oc wid' url ev pl sec w)"
proof -
  show "posts_of wid (deliverWebhook oc wid' url ev pl sec w) = posts_of wid w"
    using assms(1) by (simp add: posts_of_def deliverWebhook_posts)
  show "timers_of wid (deliverWebhook oc wid' url ev pl sec w) = timers_of wid w"
    using assms(1)
    by (simp add: timers_of_def deliverWebhook_timers split: sum.splits option.splits)
  obtain r where "db_deliveries (deliverWebhook oc wid' url ev pl sec w) = r # db_deliveries w"
    "d_webhookId r = wid'"
    using deliverWebhook_rows_unique [OF assms(2)] by blast
  then show "rows_of wid (deliverWebhook oc wid' url ev pl sec w) = rows_of wid w"
    using assms(1) by (simp add: rows_of_def)
  show "find (\<lambda>x. wh_id x = wid) (db_webhooks (deliverWebhook oc wid' url ev pl sec w)) =
         find (\<lambda>x. wh_id x = wid) (db_webhooks w)"
    using assms(1) by (rule deliverWebhook_other_webhook)
  show "unique_ids (deliverWebhook oc wid' url ev pl sec w)"
    using assms(2) by (rule deliverWebhook_unique)
qed

lemma attempt_own:
  assumes "fails oc" and "find (\<lambda>x. wh_id x = wid) (db_webhooks w) = Some wh"
    and "unique_ids w"
  shows "posts_of wid (deliverWebhook oc wid url ev pl sec w) =
           posts_of wid w @
           [\<lparr>p_at = clock w, p_webhookId = wid, p_url = url, p_event = ev, p_payload = pl,
             p_signed = (case sec of None \<Rightarrow> False | Some k \<Rightarrow> k \<noteq> [])\<rparr>]"
    and "map (\<lambda>t. (t_fire_at t, t_url t, t_event t, t_payload t, t_secret t))
           (timers_of wid (deliverWebhook oc wid url ev pl sec w)) =
           map (\<lambda>t. (t_fire_at t, t_url t, t_event t, t_payload t, t_secret t)) (timers_of wid w) @
           (if wh_retries wh < wh_maxRetries wh
            then [(clock w + calculateRetryDelay (wh_retries wh), url, ev, pl, sec)] else [])"
    and "map d_status (rows_of wid (deliverWebhook oc wid url ev pl sec w)) =
           (if wh_retries wh < wh_maxRetries wh then RETRYING else FAILED) #
           map d_status (rows_of wid w)"
    and "map_option (\<lambda>x. (wh_retries x, wh_maxRetries x))
           (find (\<lambda>x. wh_id x = wid) (db_webhooks (deliverWebhook oc wid url ev pl sec w))) =
         Some (Suc (wh_retries wh), wh_maxRetries wh)"
    and "unique_ids (deliverWebhook oc wid url ev pl sec w)"
proof -
  show "posts_of wid (deliverWebhook oc wid url ev pl sec w) =
           posts_of wid w @
           [\<lparr>p_at = clock w, p_webhookId = wid, p_url = url, p_event = ev, p_payload = pl,
             p_signed = (case sec of None \<Rightarrow> False | Some k \<Rightarrow> k \<noteq> [])\<rparr>]"
    by (simp add: posts_of_def deliverWebhook_posts)
  show "map (\<lambda>t. (t_fire_at t, t_url t, t_event t, t_payload t, t_secret t))
           (timers_of wid (deliverWebhook oc wid url ev pl sec w)) =
           map (\<lambda>t. (t_fire_at t, t_url t, t_event t, t_payload t, t_secret t)) (timers_of wid w) @
           (if wh_retries wh < wh_maxRetries wh
            then [(clock w + calculateRetryDelay (wh_retries wh), url, ev, pl, sec)] else [])"
    using assms(1,2) by (simp add: timers_of_def deliverWebhook_timers fails_axios)
  obtain r where "db_deliveries (deliverWebhook oc wid url ev pl sec w) = r # db_deliveries w"
    "d_webhookId r = wid"
    "d_status r = (if wh_retries wh < wh_maxRetries wh then RETRYING else FAILED)"
    using deliverWebhook_rows_unique [OF assms(3), of oc wid url ev pl sec] assms(1,2)
    by (auto simp: fails_axios)
  then show "map d_status (rows_of wid (deliverWebhook oc wid url ev pl sec w)) =
           (if wh_retries wh < wh_maxRetries wh then RETRYING else FAILED) #
           map d_status (rows_of wid w)"
    by (simp add: rows_of_def)
  show "map_option (\<lambda>x. (wh_retries x, wh_maxRetries x))
           (find (\<lambda>x. wh_id x = wid) (db_webhooks (deliverWebhook oc wid url ev pl sec w))) =
         Some (Suc (wh_retries wh), wh_maxRetries wh)"
    using deliverWebhook_fail_webhook [OF assms(1,2)] by simp
  show "unique_ids (deliverWebhook oc wid url ev pl sec w)"
    using assms(3) by (rule deliverWebhook_unique)
qed


lemma pre_fire:
  "posts_of wid (w\<lparr>timers := remove1 t (timers w), retryQueue := q, clock := c\<rparr>) = posts_of wid w"
  "rows_of wid (w\<lparr>timers := remove1 t (timers w), retryQueue := q, clock := c\<rparr>) = rows_of wid w"
  "db_webhooks (w\<lparr>timers := remove1 t (timers w), retryQueue := q, clock := c\<rparr>) = db_webhooks w"
  "unique_ids (w\<lparr>timers := remove1 t (timers w), retryQueue := q, clock := c\<rparr>) = unique_ids w"
  "timers_of wid (w\<lparr>timers := remove1 t (timers w), retryQueue := q, clock := c\<rparr>) =
     remove1 t (timers_of wid w)"
  "clock (w\<lparr>timers := remove1 t (timers w), retryQueue := q, clock := c\<rparr>) = c"
  by (simp_all add: posts_of_def rows_of_def unique_ids_def timers_of_def filter_remove1)

lemma remove1_other: "t_webhookId t \<noteq> wid \<Longrightarrow> remove1 t (timers_of wid w) = timers_of wid w"
  by (rule remove1_idem) (simp add: timers_of_def)

lemma chain_state_keep:
  assumes "chain_state wid url ev pl sec w ats w'"
    and "posts_of wid w'' = posts_of wid w'" and "timers_of wid w'' = timers_of wid w'"
    and "rows_of wid w'' = rows_of wid w'"
    and "find (\<lambda>x. wh_id x = wid) (db_webhooks w'') = find (\<lambda>x. wh_id x = wid) (db_webhooks w')"
    and "unique_ids w''"
  shows "chain_state wid url ev pl sec w ats w''"
  using assms by (simp add: chain_state_def)

lemma spaced_snoc:
  assumes "list_all (\<lambda>i. ats ! i + calculateRetryDelay i \<le> ats ! Suc i) [0..<length ats - 1]"
    and "ats \<noteq> []" and "last ats + calculateRetryDelay (length ats - 1) \<le> u"
  shows "list_all (\<lambda>i. (ats @ [u]) ! i + calculateRetryDelay i \<le> (ats @ [u]) ! Suc i)
           [0..<length (ats @ [u]) - 1]"
proof -
  have "\<And>i. i < length ats \<Longrightarrow>
          (ats @ [u]) ! i + calculateRetryDelay i \<le> (ats @ [u]) ! Suc i"
  proof -
    fix i assume i: "i < length ats"
    show "(ats @ [u]) ! i + calculateRetryDelay i \<le> (ats @ [u]) ! Suc i"
    proof (cases "Suc i < length ats")
      case True
      then have "ats ! i + calculateRetryDelay i \<le> ats ! Suc i"
        using assms(1) by (simp add: list_all_iff)
      then show ?thesis using True by (simp add: nth_append)
    next
      case False
      then have e: "i = length ats - 1" using i by simp
      then have "ats ! i = last ats" using assms(2) by (simp add: last_conv_nth)
      then show ?thesis using assms(3) e i False by (simp add: nth_append)
    qed
  qed
  then show ?thesis by (simp add: list_all_iff)
qed

lemma chain_stateI:
  assumes "ats \<noteq> []" and "length ats \<le> 4" and "hd ats = clock w"
    and "list_all (\<lambda>i. ats ! i + calculateRetryDelay i \<le> ats ! Suc i) [0..<length ats - 1]"
    and "posts_of wid w' =
        posts_of wid w @
        map (\<lambda>at. \<lparr>p_at = at, p_webhookId = wid, p_url = url, p_event = ev, p_payload = pl,
                    p_signed = (case sec of None \<Rightarrow> False | Some k \<Rightarrow> k \<noteq> [])\<rparr>) ats"
    and "map (\<lambda>t. (t_fire_at t, t_url t, t_event t, t_payload t, t_secret t)) (timers_of wid w') =
        (if length ats < 4
         then [(last ats + calculateRetryDelay (length ats - 1), url, ev, pl, sec)]
         else [])"
    and "map d_status (rows_of wid w') =
        (if length ats < 4 then replicate (length ats) RETRYING
         else FAILED # replicate 3 RETRYING) @ map d_status (rows_of wid w)"
    and "map_option (\<lambda>x. (wh_retries x, wh_maxRetries x))
        (find (\<lambda>x. wh_id x = wid) (db_webhooks w')) = Some (length ats, 3)"
    and "unique_ids w'"
  shows "chain_state wid url ev pl sec w ats w'"
  unfolding chain_state_def using assms by (intro conjI)

lemma chain_state_fire:
  assumes inv: "chain_state wid url ev pl sec w ats w'"
    and t: "t \<in> set (timers w')" "t_webhookId t = wid"
    and f: "fails oc"
  shows "length ats < 4 \<and> t_url t = url \<and>
         chain_state wid url ev pl sec w (ats @ [max (clock w') (t_fire_at t)]) (fire_timer oc t w')"
proof -
  let ?k = "length ats"
  let ?u = "max (clock w') (t_fire_at t)"
  let ?pre = "w'\<lparr>timers := remove1 t (timers w'),
                  retryQueue := (retryQueue w')(t_webhookId t := None), clock := ?u\<rparr>"
  have mem: "t \<in> set (timers_of wid w')"
    using t by (simp add: timers_of_def)
  have tv: "map (\<lambda>t. (t_fire_at t, t_url t, t_event t, t_payload t, t_secret t)) (timers_of wid w') =
      (if ?k < 4 then [(last ats + calculateRetryDelay (?k - 1), url, ev, pl, sec)] else [])"
    using inv by (simp add: chain_state_def)
  have k4: "?k < 4"
    using mem tv by (cases "?k < 4") auto
  from tv k4 have "length (map (\<lambda>t. (t_fire_at t, t_url t, t_event t, t_payload t, t_secret t))
      (timers_of wid w')) = 1"
    by simp
  then have len1: "length (timers_of wid w') = 1"
    by (simp only: length_map)
  then obtain x where x: "timers_of wid w' = [x]"
    by (cases "timers_of wid w'") auto
  with mem have tx: "timers_of wid w' = [t]" by simp
  with tv k4 have targs: "t_fire_at t = last ats + calculateRetryDelay (?k - 1)" "t_url t = url"
    "t_event t = ev" "t_payload t = pl" "t_secret t = sec"
    by simp_all
  obtain wh where wh: "find (\<lambda>x. wh_id x = wid) (db_webhooks w') = Some wh"
    "wh_retries wh = ?k" "wh_maxRetries wh = 3"
    using inv by (auto simp: chain_state_def)
  have uq: "unique_ids w'" using inv by (simp add: chain_state_def)
  have ne: "ats \<noteq> []" using inv by (simp add: chain_state_def)
  have fd: "find (\<lambda>x. wh_id x = wid) (db_webhooks ?pre) = Some wh"
    using wh(1) by simp
  have uqp: "unique_ids ?pre" using uq by (simp add: pre_fire)
  have fire: "fire_timer oc t w' = deliverWebhook oc wid url ev pl sec ?pre"
    using t(2) targs by (simp add: fire_timer_def)
  note own = attempt_own [OF f fd uqp, of url ev pl sec]
  have posts: "posts_of wid (fire_timer oc t w') =
      posts_of wid w @
      map (\<lambda>at. \<lparr>p_at = at, p_webhookId = wid, p_url = url, p_event = ev, p_payload = pl,
                  p_signed = (case sec of None \<Rightarrow> False | Some k \<Rightarrow> k \<noteq> [])\<rparr>) (ats @ [?u])"
    using inv own(1) unfolding fire by (simp add: pre_fire chain_state_def)
  have timers: "map (\<lambda>t. (t_fire_at t, t_url t, t_event t, t_payload t, t_secret t))
        (timers_of wid (fire_timer oc t w')) =
      (if length (ats @ [?u]) < 4
       then [(last (ats @ [?u]) + calculateRetryDelay (length (ats @ [?u]) - 1), url, ev, pl, sec)]
       else [])"
    using own(2) tx wh(2,3) k4 unfolding fire by (auto simp: pre_fire)
  have rows: "map d_status (rows_of wid (fire_timer oc t w')) =
      (if length (ats @ [?u]) < 4 then replicate (length (ats @ [?u])) RETRYING
       else FAILED # replicate 3 RETRYING) @ map d_status (rows_of wid w)"
  proof (cases "?k < 3")
    case True
    have "RETRYING # replicate ?k RETRYING = replicate (Suc ?k) RETRYING" by simp
    then show ?thesis
      using inv own(3) wh(2,3) k4 True unfolding fire by (simp add: pre_fire chain_state_def)
  next
    case False
    then have k3: "?k = 3" using k4 by simp
    have "replicate ?k RETRYING = replicate 3 RETRYING" using k3 by simp
    then show ?thesis
      using inv own(3) wh(2,3) k3 unfolding fire by (simp add: pre_fire chain_state_def)
  qed
  have counter: "map_option (\<lambda>x. (wh_retries x, wh_maxRetries x))
        (find (\<lambda>x. wh_id x = wid) (db_webhooks (fire_timer oc t w'))) =
      Some (length (ats @ [?u]), 3)"
    using own(4) wh(2,3) unfolding fire by simp
  have uq': "unique_ids (fire_timer oc t w')"
    using own(5) unfolding fire .
  have "last ats + calculateRetryDelay (?k - 1) \<le> ?u"
    using targs(1) by simp
  then have sp: "list_all (\<lambda>i. (ats @ [?u]) ! i + calculateRetryDelay i \<le> (ats @ [?u]) ! Suc i)
           [0..<length (ats @ [?u]) - 1]"
    using inv ne by (intro spaced_snoc) (simp_all add: chain_state_def)
  have hd: "hd (ats @ [?u]) = clock w" "ats @ [?u] \<noteq> []" "length (ats @ [?u]) \<le> 4"
    using inv ne k4 by (simp_all add: chain_state_def)
  have "chain_state wid url ev pl sec w (ats @ [?u]) (fire_timer oc t w')"
    by (rule chain_stateI [OF hd(2) hd(3) hd(1) sp posts timers rows counter uq'])
  with k4 targs(2) show ?thesis by simp
qed


lemma fire_other_keeps:
  assumes inv: "chain_state wid url ev pl sec w ats w'" and "t_webhookId t \<noteq> wid"
  shows "chain_state wid url ev pl sec w ats (fire_timer oc t w')"
proof -
  let ?pre = "w'\<lparr>timers := remove1 t (timers w'),
                  retryQueue := (retryQueue w')(t_webhookId t := None),
                  clock := max (clock w') (t_fire_at t)\<rparr>"
  have uq: "unique_ids ?pre" using inv by (simp add: pre_fire chain_state_def)
  note other = attempt_other [OF assms(2) uq, of oc "t_url t" "t_event t" "t_payload t" "t_secret t"]
  show ?thesis
  proof (rule chain_state_keep [OF inv])
    show "posts_of wid (fire_timer oc t w') = posts_of wid w'"
      unfolding fire_timer_def other(1) by (simp add: pre_fire)
    show "timers_of wid (fire_timer oc t w') = timers_of wid w'"
      unfolding fire_timer_def other(2) using assms(2) by (simp add: pre_fire remove1_other)
    show "rows_of wid (fire_timer oc t w') = rows_of wid w'"
      unfolding fire_timer_def other(3) by (simp add: pre_fire)
    show "find (\<lambda>x. wh_id x = wid) (db_webhooks (fire_timer oc t w')) =
          find (\<lambda>x. wh_id x = wid) (db_webhooks w')"
      unfolding fire_timer_def other(4) by simp
    show "unique_ids (fire_timer oc t w')"
      unfolding fire_timer_def by (rule other(5))
  qed
qed

lemma chain_state_step:
  assumes inv: "chain_state wid url ev pl sec w ats w'"
    and fr: "foreign wid a" and down: "\<And>n. fails (net url n)"
  shows "\<exists>ats'. chain_state wid url ev pl sec w ats' (step net w' a)"
proof (cases a)
  case (Fire t)
  show ?thesis
  proof (cases "t \<in> set (timers w')")
    case False
    then show ?thesis using inv Fire by auto
  next
    case True
    show ?thesis
    proof (cases "t_webhookId t = wid")
      case False
      then show ?thesis
        using fire_other_keeps [OF inv False] Fire True by auto
    next
      case own: True
      have u: "t_url t = url"
        using chain_state_fire [OF inv True own, of "NetworkError []"] by (simp add: fails_def)
      have "fails (net (t_url t) (max (clock w') (t_fire_at t)))"
        unfolding u by (rule down)
      from chain_state_fire [OF inv True own this] show ?thesis
        using Fire True by auto
    qed
  qed
next
  case (Deliver wid' url' ev' pl' sec')
  then have ne: "wid' \<noteq> wid" using fr by (simp add: foreign_def)
  have uq: "unique_ids w'" using inv by (simp add: chain_state_def)
  note other = attempt_other [OF ne uq, of "net url' (clock w')" url' ev' pl' sec']
  have "chain_state wid url ev pl sec w ats (step net w' a)"
    unfolding Deliver step.simps
    by (rule chain_state_keep [OF inv other])
  then show ?thesis by blast
next
  case (Tick n)
  have "chain_state wid url ev pl sec w ats (w'\<lparr>clock := clock w' + n\<rparr>)"
    by (rule chain_state_keep [OF inv])
       (simp_all add: posts_of_def timers_of_def rows_of_def unique_ids_def,
        use inv in \<open>simp_all add: chain_state_def unique_ids_def\<close>)
  then show ?thesis using Tick by auto
qed

lemma chain_state_run:
  assumes "\<exists>ats. chain_state wid url ev pl sec w ats w'"
    and "list_all (foreign wid) acts" and "\<And>n. fails (net url n)"
  shows "\<exists>ats. chain_state wid url ev pl sec w ats (foldl (step net) w' acts)"
  using assms(1,2)
proof (induction acts arbitrary: w')
  case Nil
  then show ?case by simp
next
  case (Cons a acts)
  from Cons.prems(1) obtain ats where "chain_state wid url ev pl sec w ats w'" by blast
  then have "\<exists>ats'. chain_state wid url ev pl sec w ats' (step net w' a)"
    using Cons.prems(2) assms(3) by (intro chain_state_step) simp_all
  then show ?case
    using Cons.IH Cons.prems(2) by simp
qed

lemma chain_state_start:
  assumes "find (\<lambda>x. wh_id x = wid) (db_webhooks w) = Some wh"
    and "wh_retries wh = 0" and "wh_maxRetries wh = 3"
    and "timers_of wid w = []" and "unique_ids w" and "fails oc"
  shows "chain_state wid url ev pl sec w [clock w] (deliverWebhook oc wid url ev pl sec w)"
proof (rule chain_stateI)
  note own = attempt_own [OF assms(6) assms(1) assms(5), of url ev pl sec]
  show "posts_of wid (deliverWebhook oc wid url ev pl sec w) =
        posts_of wid w @
        map (\<lambda>at. \<lparr>p_at = at, p_webhookId = wid, p_url = url, p_event = ev, p_payload = pl,
                    p_signed = (case sec of None \<Rightarrow> False | Some k \<Rightarrow> k \<noteq> [])\<rparr>) [clock w]"
    using own(1) by simp
  show "map (\<lambda>t. (t_fire_at t, t_url t, t_event t, t_payload t, t_secret t))
          (timers_of wid (deliverWebhook oc wid url ev pl sec w)) =
        (if length [clock w] < 4
         then [(last [clock w] + calculateRetryDelay (length [clock w] - 1), url, ev, pl, sec)]
         else [])"
    using own(2) assms(2,3,4) by simp
  show "map d_status (rows_of wid (deliverWebhook oc wid url ev pl sec w)) =
        (if length [clock w] < 4 then replicate (length [clock w]) RETRYING
         else FAILED # replicate 3 RETRYING) @ map d_status (rows_of wid w)"
    using own(3) assms(2,3) by simp
  show "map_option (\<lambda>x. (wh_retries x, wh_maxRetries x))
          (find (\<lambda>x. wh_id x = wid) (db_webhooks (deliverWebhook oc wid url ev pl sec w))) =
        Some (length [clock w], 3)"
    using own(4) assms(2,3) by simp
  show "unique_ids (deliverWebhook oc wid url ev pl sec w)"
    by (rule own(5))
qed simp_all

lemma deliverWebhook_row_unique:
  assumes "unique_ids w" and "fails oc" and "find (\<lambda>x. wh_id x = wid) (db_webhooks w) = Some wh"
  shows "map (\<lambda>d. (d_payload d, d_status d)) (db_deliveries (deliverWebhook oc wid url ev pl sec w)) =
           (pl, if wh_retries wh < wh_maxRetries wh then RETRYING else FAILED) #
           map (\<lambda>d. (d_payload d, d_status d)) (db_deliveries w)"
  using assms
  by (auto simp: deliverWebhook_def handleWebhookError_def Let_def fails_axios
      unique_ids_def map_update_fresh)

lemma deliver_fields:
  assumes "fails oc" and "find (\<lambda>x. wh_id x = wid) (db_webhooks w) = Some wh"
    and "unique_ids w"
  shows "timers (deliverWebhook oc wid url ev pl sec w) =
           timers w @
           (if wh_retries wh < wh_maxRetries wh
            then [\<lparr>t_id = next_timer_id w,
                   t_fire_at = clock w + calculateRetryDelay (wh_retries wh),
                   t_webhookId = wid, t_url = url, t_event = ev, t_payload = pl,
                   t_secret = sec\<rparr>]
            else [])"
    and "clock (deliverWebhook oc wid url ev pl sec w) = clock w"
    and "map (\<lambda>p. (p_at p, p_payload p)) (http_posts (deliverWebhook oc wid url ev pl sec w)) =
           map (\<lambda>p. (p_at p, p_payload p)) (http_posts w) @ [(clock w, pl)]"
    and "find (\<lambda>x. wh_id x = wid) (db_webhooks (deliverWebhook oc wid url ev pl sec w)) =
           Some (wh\<lparr>wh_retries := wh_retries wh + 1,
                    wh_lastError := Some (if failure_message oc = [] then ''Unknown error''
                                          else failure_message oc)\<rparr>)"
    and "map (\<lambda>d. (d_payload d, d_status d)) (db_deliveries (deliverWebhook oc wid url ev pl sec w)) =
           (pl, if wh_retries wh < wh_maxRetries wh then RETRYING else FAILED) #
           map (\<lambda>d. (d_payload d, d_status d)) (db_deliveries w)"
    and "unique_ids (deliverWebhook oc wid url ev pl sec w)"
proof -
  show "timers (deliverWebhook oc wid url ev pl sec w) =
           timers w @
           (if wh_retries wh < wh_maxRetries wh
            then [\<lparr>t_id = next_timer_id w,
                   t_fire_at = clock w + calculateRetryDelay (wh_retries wh),
                   t_webhookId = wid, t_url = url, t_event = ev, t_payload = pl,
                   t_secret = sec\<rparr>]
            else [])"
    using assms(1,2) by (simp add: deliverWebhook_timers fails_axios)
  show "clock (deliverWebhook oc wid url ev pl sec w) = clock w"
    by (rule deliverWebhook_clock)
  show "map (\<lambda>p. (p_at p, p_payload p)) (http_posts (deliverWebhook oc wid url ev pl sec w)) =
           map (\<lambda>p. (p_at p, p_payload p)) (http_posts w) @ [(clock w, pl)]"
    by (simp add: deliverWebhook_posts)
  show "find (\<lambda>x. wh_id x = wid) (db_webhooks (deliverWebhook oc wid url ev pl sec w)) =
           Some (wh\<lparr>wh_retries := wh_retries wh + 1,
                    wh_lastError := Some (if failure_message oc = [] then ''Unknown error''
                                          else failure_message oc)\<rparr>)"
    using assms(1,2) by (rule deliverWebhook_fail_webhook)
  show "map (\<lambda>d. (d_payload d, d_status d)) (db_deliveries (deliverWebhook oc wid url ev pl sec w)) =
           (pl, if wh_retries wh < wh_maxRetries wh then RETRYING else FAILED) #
           map (\<lambda>d. (d_payload d, d_status d)) (db_deliveries w)"
    using assms(3,1,2) by (rule deliverWebhook_row_unique)
  show "unique_ids (deliverWebhook oc wid url ev pl sec w)"
    using assms(3) by (rule deliverWebhook_unique)
qed

lemma fire_fields:
  assumes "fails oc" and "find (\<lambda>x. wh_id x = t_webhookId t) (db_webhooks w) = Some wh"
    and "unique_ids w" and "clock w \<le> t_fire_at t"
  shows "timers (fire_timer oc t w) =
           remove1 t (timers w) @
           (if wh_retries wh < wh_maxRetries wh
            then [\<lparr>t_id = next_timer_id w,
                   t_fire_at = t_fire_at t + calculateRetryDelay (wh_retries wh),
                   t_webhookId = t_webhookId t, t_url = t_url t, t_event = t_event t,
                   t_payload = t_payload t, t_secret = t_secret t\<rparr>]
            else [])"
    and "clock (fire_timer oc t w) = t_fire_at t"
    and "map (\<lambda>p. (p_at p, p_payload p)) (http_posts (fire_timer oc t w)) =
           map (\<lambda>p. (p_at p, p_payload p)) (http_posts w) @ [(t_fire_at t, t_payload t)]"
    and "find (\<lambda>x. wh_id x = t_webhookId t) (db_webhooks (fire_timer oc t w)) =
           Some (wh\<lparr>wh_retries := wh_retries wh + 1,
                    wh_lastError := Some (if failure_message oc = [] then ''Unknown error''
                                          else failure_message oc)\<rparr>)"
    and "map (\<lambda>d. (d_payload d, d_status d)) (db_deliveries (fire_timer oc t w)) =
           (t_payload t, if wh_retries wh < wh_maxRetries wh then RETRYING else FAILED) #
           map (\<lambda>d. (d_payload d, d_status d)) (db_deliveries w)"
    and "unique_ids (fire_timer oc t w)"
proof -
  let ?pre = "w\<lparr>timers := remove1 t (timers w),
                 retryQueue := (retryQueue w)(t_webhookId t := None),
                 clock := max (clock w) (t_fire_at t)\<rparr>"
  have fd: "find (\<lambda>x. wh_id x = t_webhookId t) (db_webhooks ?pre) = Some wh"
    using assms(2) by simp
  have uq: "unique_ids ?pre" using assms(3) by (simp add: pre_fire)
  have m: "max (clock w) (t_fire_at t) = t_fire_at t" using assms(4) by simp
  note d = deliver_fields [OF assms(1) fd uq, of "t_url t" "t_event t" "t_payload t" "t_secret t",
      folded fire_timer_def]
  show "timers (fire_timer oc t w) =
           remove1 t (timers w) @
           (if wh_retries wh < wh_maxRetries wh
            then [\<lparr>t_id = next_timer_id w,
                   t_fire_at = t_fire_at t + calculateRetryDelay (wh_retries wh),
                   t_webhookId = t_webhookId t, t_url = t_url t, t_event = t_event t,
                   t_payload = t_payload t, t_secret = t_secret t\<rparr>]
            else [])"
    using d(1) m by simp
  show "clock (fire_timer oc t w) = t_fire_at t"
    using d(2) m by simp
  show "map (\<lambda>p. (p_at p, p_payload p)) (http_posts (fire_timer oc t w)) =
           map (\<lambda>p. (p_at p, p_payload p)) (http_posts w) @ [(t_fire_at t, t_payload t)]"
    using d(3) m by simp
  show "find (\<lambda>x. wh_id x = t_webhookId t) (db_webhooks (fire_timer oc t w)) =
           Some (wh\<lparr>wh_retries := wh_retries wh + 1,
                    wh_lastError := Some (if failure_message oc = [] then ''Unknown error''
                                          else failure_message oc)\<rparr>)"
    using d(4) by simp
  show "map (\<lambda>d. (d_payload d, d_status d)) (db_deliveries (fire_timer oc t w)) =
           (t_payload t, if wh_retries wh < wh_maxRetries wh then RETRYING else FAILED) #
           map (\<lambda>d. (d_payload d, d_status d)) (db_deliveries w)"
    using d(5) by simp
  show "unique_ids (fire_timer oc t w)"
    using d(6) .
qed

text \<open>
  C1, where it fails: \<open>retries\<close> is a counter of the webhook, shared by all its
  deliveries. Webhook \<open>h1\<close> has \<open>maxRetries = 3\<close> and no failure counted; deliveries
  \<open>{a}\<close> and \<open>{b}\<close> are started at time 0, every attempt fails, every retry fires when
  it is due. Delivery \<open>{a}\<close> is retried twice only, 1000 ms and then 4000 ms after the
  attempt before, delivery \<open>{b}\<close> once; then no retry is pending and the newest row of
  each is \<open>FAILED\<close>.
\<close>

theorem shared_counter_counterexample:
  "map (\<lambda>p. (p_at p, p_payload p))
     (http_posts
        (run_retries (replicate 4 (NetworkError ''down''))
           (deliverWebhook (NetworkError ''down'') ''h1'' ''https://a.example/hook''
              ''message.received'' ''{b}'' None
              (deliverWebhook (NetworkError ''down'') ''h1'' ''https://a.example/hook''
                 ''message.received'' ''{a}'' None example_world)))) =
     [(0, ''{a}''), (0, ''{b}''), (1000, ''{a}''), (2000, ''{b}''), (5000, ''{a}'')] \<and>
   map (\<lambda>d. (d_payload d, d_status d))
     (db_deliveries
        (run_retries (replicate 4 (NetworkError ''down''))
           (deliverWebhook (NetworkError ''down'') ''h1'' ''https://a.example/hook''
              ''message.received'' ''{b}'' None
              (deliverWebhook (NetworkError ''down'') ''h1'' ''https://a.example/hook''
                 ''message.received'' ''{a}'' None example_world)))) =
     [(''{a}'', FAILED), (''{b}'', FAILED), (''{a}'', RETRYING), (''{b}'', RETRYING),
      (''{a}'', RETRYING)] \<and>
   timers
     (run_retries (replicate 4 (NetworkError ''down''))
        (deliverWebhook (NetworkError ''down'') ''h1'' ''https://a.example/hook''
           ''message.received'' ''{b}'' None
           (deliverWebhook (NetworkError ''down'') ''h1'' ''https://a.example/hook''
              ''message.received'' ''{a}'' None example_world))) = []"
proof -
  let ?oc = "NetworkError ''down''"
  let ?U = "''https://a.example/hook''" and ?E = "''message.received''"
  define H0 where "H0 = \<lparr>wh_id = ''h1'', wh_userId = ''u1'', wh_url = ?U,
      wh_events = [?E], wh_secret = None, wh_isActive = True,
      wh_retries = 0, wh_maxRetries = 3, wh_lastError = None\<rparr>"
  have f: "fails ?oc" by (simp add: fails_def)
  have d0: "calculateRetryDelay 0 = 1000" and d1: "calculateRetryDelay (Suc 0) = 2000"
    and d2: "calculateRetryDelay (Suc (Suc 0)) = 4000"
    by (simp_all add: calculateRetryDelay_def)
  have h [simp]: "wh_retries H0 = 0" "wh_maxRetries H0 = 3"
    by (simp_all add: H0_def)

  define w1 where "w1 = deliverWebhook ?oc ''h1'' ?U ?E ''{a}'' None example_world"
  define w2 where "w2 = deliverWebhook ?oc ''h1'' ?U ?E ''{b}'' None w1"
  define tA where "tA = \<lparr>t_id = next_timer_id example_world, t_fire_at = 1000,
      t_webhookId = ''h1'', t_url = ?U, t_event = ?E, t_payload = ''{a}'', t_secret = None\<rparr>"
  define tB where "tB = \<lparr>t_id = next_timer_id w1, t_fire_at = 2000,
      t_webhookId = ''h1'', t_url = ?U, t_event = ?E, t_payload = ''{b}'', t_secret = None\<rparr>"
  define w3 where "w3 = fire_timer ?oc tA w2"
  define tA2 where "tA2 = \<lparr>t_id = next_timer_id w2, t_fire_at = 5000,
      t_webhookId = ''h1'', t_url = ?U, t_event = ?E, t_payload = ''{a}'', t_secret = None\<rparr>"
  define w4 where "w4 = fire_timer ?oc tB w3"
  define w5 where "w5 = fire_timer ?oc tA2 w4"

  have F0: "find (\<lambda>x. wh_id x = ''h1'') (db_webhooks example_world) = Some H0"
    by (simp add: example_world_def H0_def)
  have U0: "unique_ids example_world"
    by (simp add: example_world_def unique_ids_def)
  have B0: "timers example_world = []" "clock example_world = 0"
    "http_posts example_world = []" "db_deliveries example_world = []"
    by (simp_all add: example_world_def)

  note s1 = deliver_fields [OF f F0 U0, of ?U ?E "''{a}''" None, folded w1_def]
  have T1: "timers w1 = [tA]" using s1(1) by (simp add: B0 d0 tA_def)
  have C1: "clock w1 = 0" using s1(2) by (simp add: B0)
  have P1: "map (\<lambda>p. (p_at p, p_payload p)) (http_posts w1) = [(0, ''{a}'')]"
    using s1(3) by (simp add: B0)
  have R1: "map (\<lambda>d. (d_payload d, d_status d)) (db_deliveries w1) = [(''{a}'', RETRYING)]"
    using s1(5) by (simp add: B0)

  obtain H1 where F1: "find (\<lambda>x. wh_id x = ''h1'') (db_webhooks w1) = Some H1"
    "wh_retries H1 = 1" "wh_maxRetries H1 = 3"
    using s1(4) by simp

  note s2 = deliver_fields [OF f F1(1) s1(6), of ?U ?E "''{b}''" None, folded w2_def]
  have T2: "timers w2 = [tA, tB]" using s2(1) F1 by (simp add: T1 C1 d1 tB_def)
  have C2: "clock w2 = 0" using s2(2) by (simp add: C1)
  have P2: "map (\<lambda>p. (p_at p, p_payload p)) (http_posts w2) = [(0, ''{a}''), (0, ''{b}'')]"
    using s2(3) by (simp add: P1 C1)
  have R2: "map (\<lambda>d. (d_payload d, d_status d)) (db_deliveries w2) =
      [(''{b}'', RETRYING), (''{a}'', RETRYING)]"
    using s2(5) F1 by (simp add: R1)
  obtain H2 where F2: "find (\<lambda>x. wh_id x = t_webhookId tA) (db_webhooks w2) = Some H2"
    "wh_retries H2 = 2" "wh_maxRetries H2 = 3"
    using s2(4) F1 by (simp add: tA_def)
  have c2: "clock w2 \<le> t_fire_at tA" by (simp add: C2 tA_def)

  note s3 = fire_fields [OF f F2(1) s2(6) c2, folded w3_def]
  have T3: "timers w3 = [tB, tA2]"
    using s3(1) F2 by (simp add: T2 d2 numeral_2_eq_2) (simp add: tA_def tA2_def)
  have C3: "clock w3 = 1000" using s3(2) by (simp add: tA_def)
  have P3: "map (\<lambda>p. (p_at p, p_payload p)) (http_posts w3) =
      [(0, ''{a}''), (0, ''{b}''), (1000, ''{a}'')]"
    using s3(3) by (simp add: P2 tA_def)
  have R3: "map (\<lambda>d. (d_payload d, d_status d)) (db_deliveries w3) =
      [(''{a}'', RETRYING), (''{b}'', RETRYING), (''{a}'', RETRYING)]"
    using s3(5) F2 by (simp add: R2 tA_def)
  obtain H3 where F3: "find (\<lambda>x. wh_id x = t_webhookId tB) (db_webhooks w3) = Some H3"
    "wh_retries H3 = 3" "wh_maxRetries H3 = 3"
    using s3(4) F2 by (simp add: tA_def tB_def)
  have c3: "clock w3 \<le> t_fire_at tB" by (simp add: C3 tB_def)

  note s4 = fire_fields [OF f F3(1) s3(6) c3, folded w4_def]
  have T4: "timers w4 = [tA2]" using s4(1) F3 by (simp add: T3)
  have C4: "clock w4 = 2000" using s4(2) by (simp add: tB_def)
  have P4: "map (\<lambda>p. (p_at p, p_payload p)) (http_posts w4) =
      [(0, ''{a}''), (0, ''{b}''), (1000, ''{a}''), (2000, ''{b}'')]"
    using s4(3) by (simp add: P3 tB_def)
  have R4: "map (\<lambda>d. (d_payload d, d_status d)) (db_deliveries w4) =
      [(''{b}'', FAILED), (''{a}'', RETRYING), (''{b}'', RETRYING), (''{a}'', RETRYING)]"
    using s4(5) F3 by (simp add: R3 tB_def)
  obtain H4 where F4: "find (\<lambda>x. wh_id x = t_webhookId tA2) (db_webhooks w4) = Some H4"
    "wh_retries H4 = 4" "wh_maxRetries H4 = 3"
    using s4(4) F3 by (simp add: tB_def tA2_def)
  have c4: "clock w4 \<le> t_fire_at tA2" by (simp add: C4 tA2_def)

  note s5 = fire_fields [OF f F4(1) s4(6) c4, folded w5_def]
  have T5: "timers w5 = []" using s5(1) F4 by (simp add: T4)
  have P5: "map (\<lambda>p. (p_at p, p_payload p)) (http_posts w5) =
      [(0, ''{a}''), (0, ''{b}''), (1000, ''{a}''), (2000, ''{b}''), (5000, ''{a}'')]"
    using s5(3) by (simp add: P4 tA2_def)
  have R5: "map (\<lambda>d. (d_payload d, d_status d)) (db_deliveries w5) =
      [(''{a}'', FAILED), (''{b}'', FAILED), (''{a}'', RETRYING), (''{b}'', RETRYING),
       (''{a}'', RETRYING)]"
    using s5(5) F4 by (simp add: R4 tA2_def)

  have n2: "next_due (timers w2) = Some tA"
    by (simp add: T2 next_due_def tA_def tB_def)
  have n3: "next_due (timers w3) = Some tB"
    by (simp add: T3 next_due_def tB_def tA2_def)
  have n4: "next_due (timers w4) = Some tA2"
    by (simp add: T4 next_due_def)
  have n5: "next_due (timers w5) = None"
    by (simp add: T5 next_due_def)
  have r2: "run_retries (?oc # xs) w2 = run_retries xs w3" for xs
    by (simp add: n2 w3_def)
  have r3: "run_retries (?oc # xs) w3 = run_retries xs w4" for xs
    by (simp add: n3 w4_def)
  have r4: "run_retries (?oc # xs) w4 = run_retries xs w5" for xs
    by (simp add: n4 w5_def)
  have r5: "run_retries (?oc # xs) w5 = w5" for xs
    by (simp add: n5)
  have rep: "replicate 4 ?oc = [?oc, ?oc, ?oc, ?oc]"
    by (simp add: numeral_eq_Suc)
  have run: "run_retries (replicate 4 ?oc) w2 = w5"
    unfolding rep by (simp only: r2 r3 r4 r5)
  show ?thesis
    using P5 R5 T5 unfolding run [unfolded w2_def w1_def] by (intro conjI)
qed

lemma calculateRetryDelay_values: "map calculateRetryDelay [0, 1, 2] = [1000, 2000, 4000]"
  by (simp add: calculateRetryDelay_def)

lemma chain_rows:
  assumes "map d_status rs = (if k < 4 then replicate k RETRYING else FAILED # replicate 3 RETRYING) @ old"
    and "k \<le> 4" and "0 < k"
  shows "(FAILED \<in> set (map d_status (take k rs))) = (k = 4) \<and>
         (k = 4 \<longrightarrow> d_status (hd rs) = FAILED)"
proof (cases "k < 4")
  case True
  have "map d_status (take k rs) = take k (map d_status rs)" by (simp add: take_map)
  also have "\<dots> = replicate k RETRYING" using assms(1) True by simp
  finally show ?thesis using True by auto
next
  case False
  then have k: "k = 4" using assms(2) by simp
  have m: "map d_status rs = FAILED # replicate 3 RETRYING @ old" using assms(1) k by simp
  then have "rs \<noteq> []" by auto
  then have "d_status (hd rs) = hd (map d_status rs)" by (simp add: hd_map)
  moreover have "map d_status (take k rs) = take 4 (map d_status rs)" using k by (simp add: take_map)
  ultimately show ?thesis using m k by simp
qed

text \<open>
  C1, as the code has it. A webhook has \<open>maxRetries = 3\<close>, no failure counted and no
  retry pending (and the ids of the delivery rows are unique); a delivery is started for
  it, and every request to its URL fails (no response, or a status of 500 or more).
  Whatever else happens meanwhile, as long as no other delivery is started for the same
  webhook (deliveries for other webhooks, other
  retries firing, time passing, the retries of this delivery firing when they are due
  or later), the delivery is as \<open>delivery_after\<close> says: at most four attempts, the same
  request each time; retry number \<open>a + 1\<close> due \<open>min (2 ^ a * 1000) 300000\<close> ms after the
  attempt before it, that is 1000, 2000 and 4000 ms, and pending until it fires; no
  retry after the fourth attempt; a delivery row for each attempt, none \<open>FAILED\<close> before
  the fourth attempt, whose row is \<open>FAILED\<close>.
\<close>

theorem webhook_retry_chain:
  assumes "find (\<lambda>x. wh_id x = wid) (db_webhooks w) = Some wh"
    and "wh_retries wh = 0" and "wh_maxRetries wh = 3"
    and "timers_of wid w = []" and "unique_ids w"
    and "\<And>n. fails (net url n)"
    and "list_all (foreign wid) acts"
  shows "map calculateRetryDelay [0, 1, 2] = [1000, 2000, 4000] \<and>
         (\<exists>ats. delivery_after wid url ev pl sec w ats
            (foldl (step net) (deliverWebhook (net url (clock w)) wid url ev pl sec w) acts))"
proof -
  let ?w' = "foldl (step net) (deliverWebhook (net url (clock w)) wid url ev pl sec w) acts"
  have "chain_state wid url ev pl sec w [clock w]
          (deliverWebhook (net url (clock w)) wid url ev pl sec w)"
    using assms(1-5) assms(6) [of "clock w"] by (rule chain_state_start)
  then have "\<exists>ats. chain_state wid url ev pl sec w ats
          (deliverWebhook (net url (clock w)) wid url ev pl sec w)"
    by blast
  then have "\<exists>ats. chain_state wid url ev pl sec w ats ?w'"
    using assms(7) assms(6) by (rule chain_state_run [where net = net])
  then obtain ats where c: "chain_state wid url ev pl sec w ats ?w'"
    by blast
  have ne: "ats \<noteq> []" and le: "length ats \<le> 4" and hd: "hd ats = clock w"
    and sp: "list_all (\<lambda>i. ats ! i + calculateRetryDelay i \<le> ats ! Suc i) [0..<length ats - 1]"
    and posts: "posts_of wid ?w' =
       posts_of wid w @
       map (\<lambda>at. \<lparr>p_at = at, p_webhookId = wid, p_url = url, p_event = ev, p_payload = pl,
                   p_signed = (case sec of None \<Rightarrow> False | Some k \<Rightarrow> k \<noteq> [])\<rparr>) ats"
    and timers: "map (\<lambda>t. (t_fire_at t, t_url t, t_event t, t_payload t, t_secret t))
       (timers_of wid ?w') =
       (if length ats < 4
        then [(last ats + calculateRetryDelay (length ats - 1), url, ev, pl, sec)]
        else [])"
    and rows: "map d_status (rows_of wid ?w') =
        (if length ats < 4 then replicate (length ats) RETRYING
         else FAILED # replicate 3 RETRYING) @ map d_status (rows_of wid w)"
    and counter: "map_option (\<lambda>x. (wh_retries x, wh_maxRetries x))
        (find (\<lambda>x. wh_id x = wid) (db_webhooks ?w')) = Some (length ats, 3)"
    using c by (simp_all add: chain_state_def)
  have pos: "0 < length ats" using ne by simp
  have "length (map d_status (rows_of wid ?w')) = length ats + length (rows_of wid w)"
    unfolding rows using le by (cases "length ats < 4") auto
  then have len: "length (rows_of wid ?w') = length ats + length (rows_of wid w)"
    by simp
  note fr = chain_rows [OF rows le pos]
  have cnt: "map_option wh_retries (find (\<lambda>x. wh_id x = wid) (db_webhooks ?w')) = Some (length ats)"
    using counter by (cases "find (\<lambda>x. wh_id x = wid) (db_webhooks ?w')") auto
  have "delivery_after wid url ev pl sec w ats ?w'"
    unfolding delivery_after_def
    using ne le hd sp posts timers len fr cnt by (intro conjI) blast+
  then show ?thesis
    using calculateRetryDelay_values by blast
qed

theorem webhook_retry_chain_witness:
  "\<exists>ats. delivery_after ''h1'' ''https://a.example/hook'' ''message.received'' ''{}'' None
     example_world ats
     (foldl (step (\<lambda>url n. NetworkError ''down''))
        (deliverWebhook (NetworkError ''down'') ''h1'' ''https://a.example/hook''
           ''message.received'' ''{}'' None example_world)
        [Deliver ''h5'' ''https://e.example/hook'' ''message.received'' ''{}'' None,
         Tick 1500,
         Fire \<lparr>t_id = 0, t_fire_at = 1000, t_webhookId = ''h1'',
               t_url = ''https://a.example/hook'', t_event = ''message.received'',
               t_payload = ''{}'', t_secret = None\<rparr>])"
proof -
  have 1: "find (\<lambda>x. wh_id x = ''h1'') (db_webhooks example_world) =
      Some \<lparr>wh_id = ''h1'', wh_userId = ''u1'', wh_url = ''https://a.example/hook'',
            wh_events = [''message.received''], wh_secret = None, wh_isActive = True,
            wh_retries = 0, wh_maxRetries = 3, wh_lastError = None\<rparr>"
    by (simp add: example_world_def)
  have 2: "timers_of ''h1'' example_world = []"
    by (simp add: example_world_def timers_of_def)
  have 3: "unique_ids example_world"
    by (simp add: example_world_def unique_ids_def)
  have 4: "fails (NetworkError ''down'')"
    by (simp add: fails_def)
  have 5: "list_all (foreign ''h1'')
      [Deliver ''h5'' ''https://e.example/hook'' ''message.received'' ''{}'' None,
       Tick 1500,
       Fire \<lparr>t_id = 0, t_fire_at = 1000, t_webhookId = ''h1'',
             t_url = ''https://a.example/hook'', t_event = ''message.received'',
             t_payload = ''{}'', t_secret = None\<rparr>]"
    by (simp add: foreign_def)
  have a: "wh_retries \<lparr>wh_id = ''h1'', wh_userId = ''u1'', wh_url = ''https://a.example/hook'',
            wh_events = [''message.received''], wh_secret = None, wh_isActive = True,
            wh_retries = 0, wh_maxRetries = 3, wh_lastError = None\<rparr> = 0"
    and b: "wh_maxRetries \<lparr>wh_id = ''h1'', wh_userId = ''u1'', wh_url = ''https://a.example/hook'',
            wh_events = [''message.received''], wh_secret = None, wh_isActive = True,
            wh_retries = 0, wh_maxRetries = 3, wh_lastError = None\<rparr> = 3"
    by simp_all
  note t = webhook_retry_chain [where net = "\<lambda>url n. NetworkError ''down''"
      and url = "''https://a.example/hook''" and wid = "''h1''" and w = example_world
      and ev = "''message.received''" and pl = "''{}''" and sec = None
      and acts = "[Deliver ''h5'' ''https://e.example/hook'' ''message.received'' ''{}'' None,
           Tick 1500,
           Fire \<lparr>t_id = 0, t_fire_at = 1000, t_webhookId = ''h1'',
                 t_url = ''https://a.example/hook'', t_event = ''message.received'',
                 t_payload = ''{}'', t_secret = None\<rparr>]", OF 1 a b 2 3 4 5]
  show ?thesis
    by (rule t [THEN conjunct2])
qed

section \<open>Properties of the session registry\<close>

lemma sessions_emit [simp]: "sessions (emitSessionUpdate sid w) = sessions w"
  and table_emit [simp]: "session_table (emitSessionUpdate sid w) = session_table w"
  and timers_emit [simp]: "reconnect_timers (emitSessionUpdate sid w) = reconnect_timers w"
  and now_emit [simp]: "now (emitSessionUpdate sid w) = now w"
  by (simp_all add: emitSessionUpdate_def split: option.splits)

lemma sessions_updateDB [simp]: "sessions (updateSessionInDatabase sid d w) = sessions w"
  and emitted_updateDB [simp]: "emitted (updateSessionInDatabase sid d w) = emitted w"
  and timers_updateDB [simp]: "reconnect_timers (updateSessionInDatabase sid d w) = reconnect_timers w"
  and now_updateDB [simp]: "now (updateSessionInDatabase sid d w) = now w"
  by (simp_all add: updateSessionInDatabase_def)

lemma sessions_put [simp]: "sessions (put_session sid s w) = (sessions w)(sid \<mapsto> s)"
  and table_put [simp]: "session_table (put_session sid s w) = session_table w"
  and emitted_put [simp]: "emitted (put_session sid s w) = emitted w"
  and timers_put [simp]: "reconnect_timers (put_session sid s w) = reconnect_timers w"
  and now_put [simp]: "now (put_session sid s w) = now w"
  by (simp_all add: put_session_def)

lemma example_live_session:
  "sessions example_live ''s1'' =
     Some \<lparr>ses_id = ''s1'', ses_socket = Some example_socket, ses_status = CONNECTING,
           ses_qrCode = None, ses_pairingCode = None, ses_phoneNumber = None,
           ses_name = None, ses_lastSeen = 0\<rparr>"
  by (simp add: example_live_def createSession_def db_createSession_def empty_world_def
      initializeWhatsAppConnection_def Let_def)

lemma example_live_timers: "reconnect_timers example_live = [] \<and> now example_live = 0"
  by (simp add: example_live_def createSession_def db_createSession_def empty_world_def
      initializeWhatsAppConnection_def Let_def put_session_def)

lemma db_deleteSession_fields:
  "sessions (snd (db_deleteSession sid w)) = sessions w \<and>
   reconnect_timers (snd (db_deleteSession sid w)) = reconnect_timers w \<and>
   emitted (snd (db_deleteSession sid w)) = emitted w \<and>
   map row_status (session_table (snd (db_deleteSession sid w))) = map row_status (session_table w)"
  by (simp add: db_deleteSession_def o_def if_distrib cong: if_cong split: option.splits)

lemma deleteSession_timers:
  "reconnect_timers (snd (deleteSession env eb sid w)) =
     reconnect_timers w @
     (case sessions w sid of
        None \<Rightarrow> []
      | Some session \<Rightarrow>
          (case ses_socket session of
             None \<Rightarrow> []
           | Some socket \<Rightarrow>
               (case eb of
                  Silent \<Rightarrow> []
                | Emits_close code \<Rightarrow>
                    if code \<noteq> Some (loggedOut env) then [(now w + 5000, sid)] else [])))"
  by (simp add: deleteSession_def db_deleteSession_fields Let_def
      split: option.splits end_behaviour.splits)

lemma deleteSession_sessions:
  "sessions (snd (deleteSession env eb sid w)) = (sessions w)(sid := None)"
  by (auto simp: deleteSession_def db_deleteSession_fields Let_def
      split: option.splits end_behaviour.splits)

lemma example_live_table:
  "session_table example_live =
     [\<lparr>row_sessionId = ''s1'', row_userId = ''u1'', row_status = None, row_qrCode = None,
       row_pairingCode = None, row_phoneNumber = None, row_name = None, row_isActive = True\<rparr>]"
  by (simp add: example_live_def createSession_def db_createSession_def empty_world_def
      initializeWhatsAppConnection_def Let_def put_session_def)

lemma example_closed:
  "sessions (handleConnectionUpdate example_env ''s1'' close_update example_live) ''s1'' =
     Some \<lparr>ses_id = ''s1'', ses_socket = Some example_socket, ses_status = CONNECTING,
           ses_qrCode = None, ses_pairingCode = None, ses_phoneNumber = None,
           ses_name = None, ses_lastSeen = 0\<rparr> \<and>
   reconnect_timers (handleConnectionUpdate example_env ''s1'' close_update example_live) =
     [(5000, ''s1'')] \<and>
   now (handleConnectionUpdate example_env ''s1'' close_update example_live) = 0"
  by (simp add: handleConnectionUpdate_def Let_def example_live_session example_live_timers
      close_update_def example_env_def)

lemma example_connected:
  "map_option (\<lambda>s. (ses_socket s, ses_status s))
     (sessions (handleConnectionUpdate example_env ''s1'' open_update example_live) ''s1'') =
     Some (Some example_socket, CONNECTED) \<and>
   reconnect_timers (handleConnectionUpdate example_env ''s1'' open_update example_live) = [] \<and>
   now (handleConnectionUpdate example_env ''s1'' open_update example_live) = 0 \<and>
   session_table (handleConnectionUpdate example_env ''s1'' open_update example_live) =
     [\<lparr>row_sessionId = ''s1'', row_userId = ''u1'', row_status = Some CONNECTED,
       row_qrCode = None, row_pairingCode = None, row_phoneNumber = Some ''15551234567'',
       row_name = Some ''Ann'', row_isActive = True\<rparr>]"
  by (simp add: handleConnectionUpdate_def Let_def example_live_session example_live_timers
      example_live_table open_update_def example_env_def example_socket_def
      updateSessionInDatabase_def)

text \<open>
  C6, in the code: session \<open>s1\<close> is closed by the client (status 515, not a logout),
  which schedules a reconnect 5000 ms later, and is then deleted. Whether the client
  stays silent while its socket is ended or reports the close, the reconnect is still
  pending after \<open>deleteSession\<close>; in the second case a second one is scheduled by the
  delete itself. The reconnect that fires finds no live entry and fails on it. Deleting
  a \<open>CONNECTED\<close> session whose client reports the close writes \<open>CONNECTING\<close> to the row
  that the delete marks inactive, and schedules a reconnect.
\<close>

theorem deleteSession_keeps_reconnect:
  "reconnect_timers
     (snd (deleteSession example_env Silent ''s1''
        (handleConnectionUpdate example_env ''s1'' close_update example_live))) =
     [(5000, ''s1'')] \<and>
   reconnect_timers
     (snd (deleteSession example_env (Emits_close None) ''s1''
        (handleConnectionUpdate example_env ''s1'' close_update example_live))) =
     [(5000, ''s1''), (5000, ''s1'')] \<and>
   fst (initializeWhatsAppConnection (Socket_created example_socket True) ''s1'' False
     (snd (deleteSession example_env Silent ''s1''
        (handleConnectionUpdate example_env ''s1'' close_update example_live)))) =
     Some Session_undefined \<and>
   session_table
     (fire_reconnect (Socket_created example_socket True) (5000, ''s1'')
        (snd (deleteSession example_env Silent ''s1''
           (handleConnectionUpdate example_env ''s1'' close_update example_live)))) =
     session_table
       (snd (deleteSession example_env Silent ''s1''
          (handleConnectionUpdate example_env ''s1'' close_update example_live))) \<and>
   reconnect_timers
     (snd (deleteSession example_env (Emits_close None) ''s1''
        (handleConnectionUpdate example_env ''s1'' open_update example_live))) =
     [(5000, ''s1'')] \<and>
   map (\<lambda>r. (row_status r, row_isActive r)) (session_table
     (snd (deleteSession example_env (Emits_close None) ''s1''
        (handleConnectionUpdate example_env ''s1'' open_update example_live)))) =
     [(Some CONNECTING, False)]"
proof -
  have lo: "loggedOut example_env = 401"
    by (simp add: example_env_def)
  let ?wc = "handleConnectionUpdate example_env ''s1'' close_update example_live"
  let ?wo = "handleConnectionUpdate example_env ''s1'' open_update example_live"
  have a: "reconnect_timers (snd (deleteSession example_env Silent ''s1'' ?wc)) = [(5000, ''s1'')]"
    by (simp add: deleteSession_timers example_closed)
  have b: "reconnect_timers (snd (deleteSession example_env (Emits_close None) ''s1'' ?wc)) =
      [(5000, ''s1''), (5000, ''s1'')]"
    by (simp add: deleteSession_timers example_closed lo)
  have "sessions (snd (deleteSession example_env Silent ''s1'' ?wc)) ''s1'' = None"
    by (simp add: deleteSession_sessions)
  then have c: "fst (initializeWhatsAppConnection (Socket_created example_socket True) ''s1'' False
      (snd (deleteSession example_env Silent ''s1'' ?wc))) = Some Session_undefined"
    and c': "session_table
      (fire_reconnect (Socket_created example_socket True) (5000, ''s1'')
         (snd (deleteSession example_env Silent ''s1'' ?wc))) =
      session_table (snd (deleteSession example_env Silent ''s1'' ?wc))"
    by (simp_all add: initializeWhatsAppConnection_def init_catch_def fire_reconnect_def)
  obtain s where s: "sessions ?wo ''s1'' = Some s" "ses_socket s = Some example_socket"
    using example_connected by auto
  have d: "reconnect_timers (snd (deleteSession example_env (Emits_close None) ''s1'' ?wo)) =
      [(5000, ''s1'')]"
    using s by (simp add: deleteSession_timers example_connected lo)
  have e: "map (\<lambda>r. (row_status r, row_isActive r)) (session_table
      (snd (deleteSession example_env (Emits_close None) ''s1'' ?wo))) =
      [(Some CONNECTING, False)]"
    using s example_connected
    by (simp add: deleteSession_def db_deleteSession_def Let_def lo
        updateSessionInDatabase_def emitSessionUpdate_def)
  from a b c c' d e show ?thesis by blast
qed

text \<open>
  C7, as the code has it: the status of a live session after a connection update is
  decided by the update, not by the status before it. An open connection gives
  \<open>CONNECTED\<close> from every status, a close gives \<open>CONNECTING\<close> (or \<open>DISCONNECTED\<close> after a
  logout), and otherwise a QR payload that could be encoded gives \<open>QR_REQUIRED\<close> from
  every status; without any of these the status stays.
\<close>

theorem handleConnectionUpdate_status:
  assumes "sessions w sessionId = Some session"
  shows "map_option ses_status (sessions (handleConnectionUpdate env sessionId update w) sessionId) =
     Some (case cu_connection update of
             Some Conn_open \<Rightarrow> CONNECTED
           | Some Conn_close \<Rightarrow>
               if cu_statusCode update \<noteq> Some (loggedOut env) then CONNECTING else DISCONNECTED
           | _ \<Rightarrow>
               (case cu_qr update of
                  None \<Rightarrow> ses_status session
                | Some qr \<Rightarrow>
                    if qr = [] then ses_status session
                    else (case toDataURL env qr of
                            None \<Rightarrow> ses_status session
                          | Some url \<Rightarrow> QR_REQUIRED)))"
  using assms
  by (simp add: handleConnectionUpdate_def Let_def
      split: option.splits connection.splits)

text \<open>
  C7, where it fails: session \<open>s1\<close> is \<open>QR_REQUIRED\<close> after the QR payload, and the open
  connection reported next makes it \<open>CONNECTED\<close> in one step.
\<close>

theorem status_skips_connecting_counterexample:
  "map_option ses_status
     (sessions (handleConnectionUpdate example_env ''s1'' qr_update example_live) ''s1'') =
     Some QR_REQUIRED \<and>
   map_option ses_status
     (sessions (handleConnectionUpdate example_env ''s1'' open_update
        (handleConnectionUpdate example_env ''s1'' qr_update example_live)) ''s1'') =
     Some CONNECTED"
  by (simp add: handleConnectionUpdate_def Let_def example_live_session qr_update_def
      open_update_def example_env_def example_socket_def)

text \<open>
  C8, where it fails: after the QR payload and a close that is not a logout, session
  \<open>s1\<close> is \<open>CONNECTING\<close> and still holds the QR code; and a pairing code requested for
  the newly created session is held while the status is \<open>CONNECTING\<close>.
\<close>

theorem qr_code_kept_counterexample:
  "map_option (\<lambda>s. (ses_status s, ses_qrCode s))
     (sessions (handleConnectionUpdate example_env ''s1'' close_update
        (handleConnectionUpdate example_env ''s1'' qr_update example_live)) ''s1'') =
     Some (CONNECTING, Some ''data:image/png;base64,1@xyz'') \<and>
   map_option (\<lambda>s. (ses_status s, ses_pairingCode s))
     (sessions (snd (requestPairingCode (Inr ''ABCD1234'') ''s1'' ''15551234567'' example_live))
        ''s1'') =
     Some (CONNECTING, Some ''ABCD1234'')"
  by (simp add: handleConnectionUpdate_def requestPairingCode_def Let_def example_live_session
      qr_update_def close_update_def example_env_def example_socket_def)

lemma handle_keeps_invariant:
  "connected_without_qr sid w \<Longrightarrow> connected_without_qr sid (handleConnectionUpdate env sid u w)"
  by (auto simp: connected_without_qr_def handleConnectionUpdate_def Let_def
      split: option.splits connection.splits if_splits)

lemma init_keeps_invariant:
  "connected_without_qr sid w \<Longrightarrow>
   connected_without_qr sid (snd (initializeWhatsAppConnection io sid' pc w))"
  by (auto simp: connected_without_qr_def initializeWhatsAppConnection_def init_catch_def
      Let_def split: option.splits init_outcome.splits if_splits)

lemma step_keeps_invariant:
  assumes "connected_without_qr sid w"
  shows "connected_without_qr sid (session_step env sid w ev)"
proof (cases ev)
  case (Update u)
  then show ?thesis using assms by (simp add: handle_keeps_invariant)
next
  case (Identified user)
  then show ?thesis using assms
    by (auto simp: connected_without_qr_def identify_def split: option.splits)
next
  case (Reconnect io)
  show ?thesis
  proof (cases "next_reconnect sid (reconnect_timers w)")
    case None
    then show ?thesis using Reconnect assms by simp
  next
    case (Some t)
    let ?w = "w\<lparr>reconnect_timers := remove1 t (reconnect_timers w), now := max (now w) (fst t)\<rparr>"
    have "connected_without_qr sid ?w"
      using assms by (simp add: connected_without_qr_def)
    then show ?thesis
      using Reconnect Some by (simp add: fire_reconnect_def init_keeps_invariant)
  qed
next
  case (Pairing answer phone)
  then show ?thesis using assms
    by (auto simp: connected_without_qr_def requestPairingCode_def
        split: option.splits sum.splits)
qed

lemma steps_keep_invariant:
  "connected_without_qr sid w \<Longrightarrow> connected_without_qr sid (foldl (session_step env sid) w evs)"
  by (induction evs arbitrary: w) (simp_all add: step_keeps_invariant)

lemma create_invariant:
  "sessions w sid = None \<Longrightarrow> connected_without_qr sid (snd (createSession io sid uid pc w))"
  by (auto simp: connected_without_qr_def createSession_def db_createSession_def
      initializeWhatsAppConnection_def init_catch_def Let_def
      split: option.splits init_outcome.splits sum.splits prod.splits if_splits)

text \<open>
  C8, as the code has it. A QR payload that is encoded, in an update that neither opens
  nor closes the connection, leaves the session \<open>QR_REQUIRED\<close> with the image as its QR
  code. An open connection leaves it \<open>CONNECTED\<close> with QR code and pairing code cleared
  and, when the socket has a user identity, with the phone number (the identity's id up
  to the first colon) and the name of that identity. In every state that a session
  created under a new id reaches, it has no QR code while it is \<open>CONNECTED\<close>. A pairing
  code that the socket grants is stored on the live session with the phone number, in
  the row and in the event emitted; the status is not changed by it.
\<close>

theorem session_codes:
  "(sessions w sessionId = Some session \<and> cu_qr update = Some qr \<and> qr \<noteq> [] \<and>
    toDataURL env qr = Some url \<and>
    cu_connection update \<noteq> Some Conn_open \<and> cu_connection update \<noteq> Some Conn_close \<longrightarrow>
      sessions (handleConnectionUpdate env sessionId update w) sessionId =
        Some (session\<lparr>ses_qrCode := Some url, ses_status := QR_REQUIRED\<rparr>)) \<and>
   (sessions w sessionId = Some session \<and> cu_connection update = Some Conn_open \<longrightarrow>
      (\<exists>s. sessions (handleConnectionUpdate env sessionId update w) sessionId = Some s \<and>
           ses_status s = CONNECTED \<and> ses_qrCode s = None \<and> ses_pairingCode s = None \<and>
           (\<forall>socket user. ses_socket session = Some socket \<and> sock_user socket = Some user \<longrightarrow>
              ses_phoneNumber s = Some (takeWhile (\<lambda>c. c \<noteq> CHR '':'') (user_id user)) \<and>
              ses_name s = user_name user))) \<and>
   (sessions w sessionId = Some session \<and> ses_socket session = Some socket \<longrightarrow>
      requestPairingCode (Inr code) sessionId phoneNumber w =
        (Inr code,
         emitSessionUpdate sessionId
           (updateSessionInDatabase sessionId
              (\<lambda>r. r\<lparr>row_pairingCode := Some code, row_phoneNumber := Some phoneNumber\<rparr>)
              (put_session sessionId
                 (session\<lparr>ses_pairingCode := Some code, ses_phoneNumber := Some phoneNumber\<rparr>)
                 w)))) \<and>
   (sessions w sessionId = None \<longrightarrow>
      connected_without_qr sessionId
        (foldl (session_step env sessionId)
           (snd (createSession io sessionId userId usePairingCode w)) events))"
proof (intro conjI impI)
  assume a: "sessions w sessionId = Some session \<and> cu_qr update = Some qr \<and> qr \<noteq> [] \<and>
    toDataURL env qr = Some url \<and>
    cu_connection update \<noteq> Some Conn_open \<and> cu_connection update \<noteq> Some Conn_close"
  then show "sessions (handleConnectionUpdate env sessionId update w) sessionId =
        Some (session\<lparr>ses_qrCode := Some url, ses_status := QR_REQUIRED\<rparr>)"
    by (auto simp: handleConnectionUpdate_def Let_def split: option.splits connection.splits)
next
  assume a: "sessions w sessionId = Some session \<and> cu_connection update = Some Conn_open"
  then show "\<exists>s. sessions (handleConnectionUpdate env sessionId update w) sessionId = Some s \<and>
           ses_status s = CONNECTED \<and> ses_qrCode s = None \<and> ses_pairingCode s = None \<and>
           (\<forall>socket user. ses_socket session = Some socket \<and> sock_user socket = Some user \<longrightarrow>
              ses_phoneNumber s = Some (takeWhile (\<lambda>c. c \<noteq> CHR '':'') (user_id user)) \<and>
              ses_name s = user_name user)"
    by (auto simp: handleConnectionUpdate_def Let_def split: option.splits)
next
  assume "sessions w sessionId = Some session \<and> ses_socket session = Some socket"
  then show "requestPairingCode (Inr code) sessionId phoneNumber w =
        (Inr code,
         emitSessionUpdate sessionId
           (updateSessionInDatabase sessionId
              (\<lambda>r. r\<lparr>row_pairingCode := Some code, row_phoneNumber := Some phoneNumber\<rparr>)
              (put_session sessionId
                 (session\<lparr>ses_pairingCode := Some code, ses_phoneNumber := Some phoneNumber\<rparr>)
                 w)))"
    by (simp add: requestPairingCode_def)
next
  assume "sessions w sessionId = None"
  then show "connected_without_qr sessionId
        (foldl (session_step env sessionId)
           (snd (createSession io sessionId userId usePairingCode w)) events)"
    by (intro steps_keep_invariant create_invariant)
qed

text \<open>
  C9: when the initialization inside \<open>createSession\<close> throws, for a session id that was
  neither live nor stored, the error is rethrown to the caller, the session stays in
  the live map with status \<open>ERROR\<close>, its row stays in the \<open>session\<close> table (active, status
  \<open>ERROR\<close>), and a later \<open>createSession\<close> with the same id fails with
  \<open>Session already exists\<close> and changes nothing.
\<close>

theorem createSession_init_failure:
  assumes "sessions w sessionId = None"
    and "find (\<lambda>r. row_sessionId r = sessionId) (session_table w) = None"
  shows "fst (createSession (Init_throws message) sessionId userId usePairingCode w) =
           Inl (Init_failed message) \<and>
         map_option ses_status
           (sessions (snd (createSession (Init_throws message) sessionId userId usePairingCode w))
              sessionId) = Some ERROR \<and>
         find (\<lambda>r. row_sessionId r = sessionId)
           (session_table (snd (createSession (Init_throws message) sessionId userId usePairingCode w))) =
           Some \<lparr>row_sessionId = sessionId, row_userId = userId, row_status = Some ERROR,
                 row_qrCode = None, row_pairingCode = None, row_phoneNumber = None,
                 row_name = None, row_isActive = True\<rparr> \<and>
         createSession io2 sessionId userId2 usePairingCode2
           (snd (createSession (Init_throws message) sessionId userId usePairingCode w)) =
           (Inl Session_already_exists,
            snd (createSession (Init_throws message) sessionId userId usePairingCode w))"
  using assms
  by (simp add: createSession_def db_createSession_def initializeWhatsAppConnection_def
      init_catch_def updateSessionInDatabase_def)

text \<open>
  C3, where it fails: the initialization of the first call throws, the second call
  fails with \<open>Session already exists\<close>, and neither call has succeeded.
\<close>

theorem createSession_twice_counterexample:
  "fst (createSession (Init_throws ''EACCES'') ''s1'' ''u1'' False empty_world) =
     Inl (Init_failed ''EACCES'') \<and>
   fst (createSession (Socket_created example_socket False) ''s1'' ''u1'' False
          (snd (createSession (Init_throws ''EACCES'') ''s1'' ''u1'' False empty_world))) =
     Inl Session_already_exists"
  by (simp add: createSession_def db_createSession_def initializeWhatsAppConnection_def
      init_catch_def updateSessionInDatabase_def empty_world_def)

text \<open>
  C3, as the code has it: for a session id that is neither live nor stored, a first
  \<open>createSession\<close> whose initialization does not throw succeeds and returns the live
  session (the POST handler answers 201 with it); a second call with the same id then
  fails with \<open>Session already exists\<close>, found in the live map by the service and in the
  \<open>session\<close> table by the POST handler (status 400), and changes nothing.
\<close>

theorem createSession_twice:
  assumes "sessions w sessionId = None"
    and "find (\<lambda>r. row_sessionId r = sessionId) (session_table w) = None"
  shows "map_option Inr
           (sessions (snd (createSession (Socket_created socket registered) sessionId userId
                             usePairingCode w)) sessionId) =
           Some (fst (createSession (Socket_created socket registered) sessionId userId
                        usePairingCode w)) \<and>
         map_option Reply_201
           (sessions (snd (createSession (Socket_created socket registered) sessionId userId
                             usePairingCode w)) sessionId) =
           Some (fst (post_session (Socket_created socket registered) sessionId userId
                        usePairingCode w)) \<and>
         createSession io2 sessionId userId2 usePairingCode2
           (snd (createSession (Socket_created socket registered) sessionId userId
                   usePairingCode w)) =
           (Inl Session_already_exists,
            snd (createSession (Socket_created socket registered) sessionId userId
                   usePairingCode w)) \<and>
         post_session io2 sessionId userId2 usePairingCode2
           (snd (createSession (Socket_created socket registered) sessionId userId
                   usePairingCode w)) =
           (Reply_400 ''Session already exists'',
            snd (createSession (Socket_created socket registered) sessionId userId
                   usePairingCode w))"
  using assms
  by (simp add: createSession_def db_createSession_def initializeWhatsAppConnection_def
      post_session_def updateSessionInDatabase_def Let_def)

theorem createSession_twice_witness:
  "fst (createSession (Socket_created example_socket False) ''s1'' ''u1'' False empty_world) =
     Inr \<lparr>ses_id = ''s1'', ses_socket = Some example_socket, ses_status = CONNECTING,
           ses_qrCode = None, ses_pairingCode = None, ses_phoneNumber = None,
           ses_name = None, ses_lastSeen = 0\<rparr> \<and>
   fst (createSession (Socket_created example_socket True) ''s1'' ''u2'' True example_live) =
     Inl Session_already_exists \<and>
   fst (post_session (Socket_created example_socket True) ''s1'' ''u2'' True example_live) =
     Reply_400 ''Session already exists''"
proof -
  have h1: "sessions empty_world ''s1'' = None"
    by (simp add: empty_world_def)
  have h2: "find (\<lambda>r. row_sessionId r = ''s1'') (session_table empty_world) = None"
    by (simp add: empty_world_def)
  note t = createSession_twice [OF h1 h2, where socket = example_socket and registered = False
      and userId = "''u1''" and usePairingCode = False
      and ?io2.0 = "Socket_created example_socket True"
      and ?userId2.0 = "''u2''" and ?usePairingCode2.0 = True, folded example_live_def]
  from t show ?thesis
    by (simp add: example_live_session)
qed

theorem createSession_init_failure_witness:
  "fst (createSession (Init_throws ''EACCES'') ''s1'' ''u1'' False empty_world) =
     Inl (Init_failed ''EACCES'') \<and>
   map_option ses_status
     (sessions (snd (createSession (Init_throws ''EACCES'') ''s1'' ''u1'' False empty_world))
        ''s1'') = Some ERROR \<and>
   map row_status
     (session_table (snd (createSession (Init_throws ''EACCES'') ''s1'' ''u1'' False empty_world))) =
     [Some ERROR]"
  using createSession_init_failure [where w = empty_world and sessionId = "''s1''"
      and message = "''EACCES''" and userId = "''u1''" and usePairingCode = False]
  by (simp add: empty_world_def createSession_def db_createSession_def
      initializeWhatsAppConnection_def init_catch_def updateSessionInDatabase_def)

theorem handleConnectionUpdate_status_witness:
  "map_option ses_status
     (sessions (handleConnectionUpdate example_env ''s1'' open_update example_live) ''s1'') =
     Some CONNECTED"
  using handleConnectionUpdate_status [OF example_live_session, of example_env open_update]
  by (simp add: open_update_def)

theorem session_codes_witness:
  "sessions (handleConnectionUpdate example_env ''s1'' qr_update example_live) ''s1'' =
     Some \<lparr>ses_id = ''s1'', ses_socket = Some example_socket, ses_status = QR_REQUIRED,
           ses_qrCode = Some ''data:image/png;base64,1@xyz'', ses_pairingCode = None,
           ses_phoneNumber = None, ses_name = None, ses_lastSeen = 0\<rparr> \<and>
   (\<exists>s. sessions (handleConnectionUpdate example_env ''s1'' open_update
              (handleConnectionUpdate example_env ''s1'' qr_update example_live)) ''s1'' = Some s \<and>
        ses_status s = CONNECTED \<and> ses_qrCode s = None \<and> ses_pairingCode s = None \<and>
        ses_phoneNumber s = Some ''15551234567'' \<and> ses_name s = Some ''Ann'') \<and>
   connected_without_qr ''s1''
     (foldl (session_step example_env ''s1'') example_live [Update qr_update, Update open_update]) \<and>
   map_option (\<lambda>s. (ses_status s, ses_pairingCode s, ses_phoneNumber s))
     (sessions (snd (requestPairingCode (Inr ''ABCD1234'') ''s1'' ''15551234567'' example_live))
        ''s1'') =
     Some (CONNECTING, Some ''ABCD1234'', Some ''15551234567'')"
proof -
  have qr: "sessions (handleConnectionUpdate example_env ''s1'' qr_update example_live) ''s1'' =
     Some \<lparr>ses_id = ''s1'', ses_socket = Some example_socket, ses_status = QR_REQUIRED,
           ses_qrCode = Some ''data:image/png;base64,1@xyz'', ses_pairingCode = None,
           ses_phoneNumber = None, ses_name = None, ses_lastSeen = 0\<rparr>"
    using session_codes [where w = example_live and sessionId = "''s1''" and env = example_env
        and update = qr_update and qr = "''1@xyz''" and url = "''data:image/png;base64,1@xyz''"
        and session = "\<lparr>ses_id = ''s1'', ses_socket = Some example_socket,
           ses_status = CONNECTING, ses_qrCode = None, ses_pairingCode = None,
           ses_phoneNumber = None, ses_name = None, ses_lastSeen = 0\<rparr>"]
    by (simp add: example_live_session qr_update_def example_env_def)
  have op: "\<exists>s. sessions (handleConnectionUpdate example_env ''s1'' open_update
              (handleConnectionUpdate example_env ''s1'' qr_update example_live)) ''s1'' = Some s \<and>
        ses_status s = CONNECTED \<and> ses_qrCode s = None \<and> ses_pairingCode s = None \<and>
        ses_phoneNumber s = Some ''15551234567'' \<and> ses_name s = Some ''Ann''"
    using session_codes [where w = "handleConnectionUpdate example_env ''s1'' qr_update example_live"
        and sessionId = "''s1''" and env = example_env and update = open_update
        and session = "\<lparr>ses_id = ''s1'', ses_socket = Some example_socket,
           ses_status = QR_REQUIRED, ses_qrCode = Some ''data:image/png;base64,1@xyz'',
           ses_pairingCode = None, ses_phoneNumber = None, ses_name = None, ses_lastSeen = 0\<rparr>"]
      qr
    by (simp add: open_update_def example_socket_def)
  have inv: "connected_without_qr ''s1''
     (foldl (session_step example_env ''s1'') example_live [Update qr_update, Update open_update])"
    using session_codes [where w = empty_world and sessionId = "''s1''" and env = example_env
        and io = "Socket_created example_socket False" and userId = "''u1''"
        and usePairingCode = False and events = "[Update qr_update, Update open_update]"]
    by (simp add: empty_world_def example_live_def)
  have pc: "map_option (\<lambda>s. (ses_status s, ses_pairingCode s, ses_phoneNumber s))
     (sessions (snd (requestPairingCode (Inr ''ABCD1234'') ''s1'' ''15551234567'' example_live))
        ''s1'') =
     Some (CONNECTING, Some ''ABCD1234'', Some ''15551234567'')"
    using session_codes [where w = example_live and sessionId = "''s1''"
        and socket = example_socket and code = "''ABCD1234''" and phoneNumber = "''15551234567''"
        and session = "\<lparr>ses_id = ''s1'', ses_socket = Some example_socket,
           ses_status = CONNECTING, ses_qrCode = None, ses_pairingCode = None,
           ses_phoneNumber = None, ses_name = None, ses_lastSeen = 0\<rparr>"]
    by (simp add: example_live_session)
  from qr op inv pc show ?thesis by blast
qed

end
